theory Spec2Isabelle
  imports Main "HOL-Library.Sublist" "HOL-Library.AList"
begin

section \<open>Python values\<close>

text \<open>
  The server handles decoded JSON: \<^verbatim>\<open>None\<close>, booleans, numbers, strings, lists and
  dictionaries. Numbers are modelled by integers: the code never computes with a number,
  it tests truthiness and passes values through. A dictionary is an association list in
  insertion order with one binding per key. A character of a string is a code point
  below 256.
\<close>

datatype json =
    JNull
  | JBool bool
  | JInt int
  | JStr string
  | JList "json list"
  | JDict "(string \<times> json) list"

type_synonym dict = "(string \<times> json) list"

text \<open>Python truthiness, as used by \<^verbatim>\<open>x or y\<close>, \<^verbatim>\<open>if x\<close>, \<^verbatim>\<open>not x\<close> and \<^verbatim>\<open>bool(x)\<close>.\<close>

fun truthy :: "json \<Rightarrow> bool" where
  "truthy JNull = False"
| "truthy (JBool b) = b"
| "truthy (JInt i) = (i \<noteq> 0)"
| "truthy (JStr s) = (s \<noteq> [])"
| "truthy (JList xs) = (xs \<noteq> [])"
| "truthy (JDict kvs) = (kvs \<noteq> [])"

text \<open>\<^verbatim>\<open>a or b\<close>\<close>

definition py_or :: "json \<Rightarrow> json \<Rightarrow> json" where
  "py_or a b = (if truthy a then a else b)"

text \<open>
  Exceptions of the interpreter that the aggregation code can raise on a value of the
  wrong shape, each with its message (\<^verbatim>\<open>str(e)\<close>), which names the type of the value.
\<close>

datatype py_error = AttributeError string | TypeError string

fun py_error_message :: "py_error \<Rightarrow> string" where
  "py_error_message (AttributeError m) = m"
| "py_error_message (TypeError m) = m"

text \<open>\<^verbatim>\<open>type(v).__name__\<close>\<close>

fun type_name :: "json \<Rightarrow> string" where
  "type_name JNull = ''NoneType''"
| "type_name (JBool b) = ''bool''"
| "type_name (JInt i) = ''int''"
| "type_name (JStr s) = ''str''"
| "type_name (JList xs) = ''list''"
| "type_name (JDict kvs) = ''dict''"

text \<open>A text between single quotes.\<close>

definition quoted :: "string \<Rightarrow> string" where
  "quoted t = CHR 0x27 # t @ [CHR 0x27]"

definition no_attribute :: "json \<Rightarrow> string \<Rightarrow> py_error" where
  "no_attribute v name =
     AttributeError (quoted (type_name v) @ '' object has no attribute '' @ quoted name)"

definition not_iterable :: "json \<Rightarrow> py_error" where
  "not_iterable v = TypeError (quoted (type_name v) @ '' object is not iterable'')"

text \<open>\<^verbatim>\<open>d.get(k)\<close> on a dictionary in hand: \<^verbatim>\<open>None\<close> when the key is absent.\<close>

definition dict_get :: "dict \<Rightarrow> string \<Rightarrow> json" where
  "dict_get d k = (case map_of d k of None \<Rightarrow> JNull | Some v \<Rightarrow> v)"

text \<open>\<^verbatim>\<open>d.get(k, default)\<close>\<close>

definition dict_get_default :: "dict \<Rightarrow> string \<Rightarrow> json \<Rightarrow> json" where
  "dict_get_default d k dflt = (case map_of d k of None \<Rightarrow> dflt | Some v \<Rightarrow> v)"

text \<open>
  \<^verbatim>\<open>v.get(k)\<close> on an arbitrary value: only dictionaries have the method, every other
  value raises \<^verbatim>\<open>AttributeError\<close>.
\<close>

fun py_get :: "json \<Rightarrow> string \<Rightarrow> py_error + json" where
  "py_get (JDict d) k = Inr (dict_get d k)"
| "py_get v k = Inl (no_attribute v ''get'')"

fun py_get_default :: "json \<Rightarrow> string \<Rightarrow> json \<Rightarrow> py_error + json" where
  "py_get_default (JDict d) k dflt = Inr (dict_get_default d k dflt)"
| "py_get_default v k dflt = Inl (no_attribute v ''get'')"

text \<open>
  \<^verbatim>\<open>for x in v\<close>: a list yields its elements, a dictionary its keys, a string its
  characters; \<^verbatim>\<open>None\<close>, booleans and numbers are not iterable.
\<close>

fun py_iter :: "json \<Rightarrow> py_error + json list" where
  "py_iter (JList xs) = Inr xs"
| "py_iter (JDict d) = Inr (map (\<lambda>kv. JStr (fst kv)) d)"
| "py_iter (JStr s) = Inr (map (\<lambda>c. JStr [c]) s)"
| "py_iter v = Inl (not_iterable v)"

text \<open>Decimal rendering of an integer, as in an f-string.\<close>

fun nat_digits :: "nat \<Rightarrow> string" where
  "nat_digits n =
     (if n < 10 then [''0123456789'' ! n]
      else nat_digits (n div 10) @ [''0123456789'' ! (n mod 10)])"

declare nat_digits.simps [simp del]

definition str_int :: "int \<Rightarrow> string" where
  "str_int i = (if i < 0 then CHR ''-'' # nat_digits (nat (- i)) else nat_digits (nat i))"

text \<open>
  \<^verbatim>\<open>str(v)\<close>: a string is itself; \<^verbatim>\<open>None\<close>, booleans and integers have fixed renderings;
  the rendering of a list or dictionary is Python's \<^verbatim>\<open>repr\<close>, taken as the parameter \<open>rp\<close>.
\<close>

fun py_str :: "(json \<Rightarrow> string) \<Rightarrow> json \<Rightarrow> string" where
  "py_str rp (JStr s) = s"
| "py_str rp JNull = ''None''"
| "py_str rp (JBool b) = (if b then ''True'' else ''False'')"
| "py_str rp (JInt i) = str_int i"
| "py_str rp v = rp v"

section \<open>Strings and base URLs\<close>

text \<open>\<^verbatim>\<open>s.endswith(t)\<close>\<close>

definition endswith :: "string \<Rightarrow> string \<Rightarrow> bool" where
  "endswith s t = (length t \<le> length s \<and> drop (length s - length t) s = t)"

text \<open>\<^verbatim>\<open>s.startswith(t)\<close>\<close>

definition startswith :: "string \<Rightarrow> string \<Rightarrow> bool" where
  "startswith s t = (take (length t) s = t)"

text \<open>\<^verbatim>\<open>t in s\<close> for strings: \<open>t\<close> occurs in \<open>s\<close> as a contiguous block.\<close>

fun contains :: "string \<Rightarrow> string \<Rightarrow> bool" where
  "contains [] t = (t = [])"
| "contains (c # cs) t = (startswith (c # cs) t \<or> contains cs t)"

text \<open>
  \<^verbatim>\<open>s.lower()\<close> on the ASCII letters; every other character is left as it is. No
  character outside ASCII lowers to a letter of the tokens searched for below.
\<close>

definition lower_char :: "char \<Rightarrow> char" where
  "lower_char c =
     (if (65::nat) \<le> of_char c \<and> of_char c \<le> (90::nat)
      then char_of (of_char c + (32::nat)) else c)"

definition lower :: "string \<Rightarrow> string" where
  "lower s = map lower_char s"

text \<open>\<^verbatim>\<open>value.rstrip("/")\<close>: every trailing slash is removed.\<close>

definition normalize_base_url :: "string \<Rightarrow> string" where
  "normalize_base_url v = rev (dropWhile (\<lambda>c. c = CHR ''/'') (rev v))"

definition build_beta_base_url :: "string \<Rightarrow> string" where
  "build_beta_base_url base_url =
     (let normalized = normalize_base_url base_url
      in if endswith normalized ''/beta'' then normalized else normalized @ ''/beta'')"

section \<open>Error classification\<close>

text \<open>
  \<^verbatim>\<open>DeepSeekApiError\<close>: a message, an optional status and the payload (\<^verbatim>\<open>None\<close> is \<open>JNull\<close>).
  \<^verbatim>\<open>str(error)\<close> is the message.
\<close>

record api_error =
  err_message :: string
  err_status :: "int option"
  err_payload :: json

text \<open>
  The JSON decoder \<^verbatim>\<open>json.loads\<close> is a parameter \<open>loads\<close>: it returns the decoded value,
  or the text of the decoding error.
\<close>

type_synonym decoder = "string \<Rightarrow> string + json"

text \<open>
  What the code reads of an \<^verbatim>\<open>httpx.Response\<close>: the status code, the body as text, the
  outcome of \<^verbatim>\<open>response.json()\<close> (which decodes the bytes of the body, not the text:
  the decoded value, or the text of the decoding error) and the body as the lines that
  \<^verbatim>\<open>iter_lines()\<close> yields.
\<close>

record http_response =
  status_code :: int
  resp_text :: string
  resp_json :: "string + json"
  resp_lines :: "string list"

definition top_level_message :: "dict \<Rightarrow> string option" where
  "top_level_message d = (case dict_get d ''message'' of JStr m \<Rightarrow> Some m | _ \<Rightarrow> None)"

definition extract_error_message :: "json \<Rightarrow> string option" where
  "extract_error_message payload =
     (case payload of
        JDict d \<Rightarrow>
          (case dict_get d ''error'' of
             JDict e \<Rightarrow>
               (case dict_get e ''message'' of
                  JStr m \<Rightarrow> Some m
                | _ \<Rightarrow> top_level_message d)
           | _ \<Rightarrow> top_level_message d)
      | _ \<Rightarrow> None)"

definition status_message :: "int \<Rightarrow> string" where
  "status_message n = ''DeepSeek API error (status '' @ str_int n @ '')''"

text \<open>\<^verbatim>\<open>if not message: message = f"DeepSeek API error (status {n})"\<close>\<close>

definition or_status_message :: "string option \<Rightarrow> int \<Rightarrow> string" where
  "or_status_message msg n =
     (case msg of None \<Rightarrow> status_message n
      | Some m \<Rightarrow> if m = [] then status_message n else m)"

definition make_api_error :: "http_response \<Rightarrow> api_error" where
  "make_api_error response =
     (let payload = (case resp_json response of Inl _ \<Rightarrow> JNull | Inr j \<Rightarrow> j);
          msg = (if payload \<noteq> JNull then extract_error_message payload
                 else Some (resp_text response))
      in \<lparr>err_message = or_status_message msg (status_code response),
          err_status = Some (status_code response),
          err_payload = payload\<rparr>)"

definition make_api_error_from_text :: "decoder \<Rightarrow> int \<Rightarrow> string \<Rightarrow> api_error" where
  "make_api_error_from_text loads code txt =
     (case loads txt of
        Inl _ \<Rightarrow>
          \<lparr>err_message = or_status_message (Some txt) code,
           err_status = Some code, err_payload = JNull\<rparr>
      | Inr payload \<Rightarrow>
          (let msg = (case extract_error_message payload of
                        None \<Rightarrow> txt
                      | Some m \<Rightarrow> if m \<noteq> [] then m else txt)
           in \<lparr>err_message = or_status_message (Some msg) code,
               err_status = Some code, err_payload = payload\<rparr>))"

definition should_retry_completion_on_beta :: "api_error \<Rightarrow> bool" where
  "should_retry_completion_on_beta error =
     (let txt = lower (err_message error)
      in list_ex (\<lambda>token. contains txt token)
           [''beta'', ''base url'', ''base_url'', ''/beta''])"

section \<open>Streaming aggregation\<close>

text \<open>Sequencing of steps that may raise: the first exception ends the computation.\<close>

definition ebind :: "'e + 'a \<Rightarrow> ('a \<Rightarrow> 'e + 'b) \<Rightarrow> 'e + 'b" where
  "ebind m f = (case m of Inl e \<Rightarrow> Inl e | Inr v \<Rightarrow> f v)"

text \<open>A \<^verbatim>\<open>for\<close> loop over a list, threading the loop's variables through its body.\<close>

fun for_each :: "('a \<Rightarrow> 's \<Rightarrow> 'e + 's) \<Rightarrow> 'a list \<Rightarrow> 's \<Rightarrow> 'e + 's" where
  "for_each body [] s = Inr s"
| "for_each body (x # xs) s =
     (case body x s of Inl e \<Rightarrow> Inl e | Inr s' \<Rightarrow> for_each body xs s')"

text \<open>\<^verbatim>\<open>if isinstance(v, str): parts.append(v)\<close>\<close>

definition append_if_str :: "json \<Rightarrow> string list \<Rightarrow> string list" where
  "append_if_str v parts = (case v of JStr s \<Rightarrow> parts @ [s] | _ \<Rightarrow> parts)"

text \<open>
  The loop variables of \<open>aggregate_chat_chunks\<close>: \<^verbatim>\<open>content_parts\<close>,
  \<^verbatim>\<open>reasoning_parts\<close> and \<^verbatim>\<open>finish_reason\<close>; the body of its inner loop, for one choice.
\<close>

type_synonym chat_acc = "string list \<times> string list \<times> json"

definition chat_choice_body :: "json \<Rightarrow> chat_acc \<Rightarrow> py_error + chat_acc" where
  "chat_choice_body choice acc =
     (case acc of (content_parts, reasoning_parts, finish_reason) \<Rightarrow>
        ebind (py_get choice ''delta'') (\<lambda>d.
        let delta = py_or d (JDict []) in
        ebind (py_get delta ''content'') (\<lambda>txt.
        ebind (py_get delta ''reasoning_content'') (\<lambda>reasoning.
        ebind (py_get choice ''finish_reason'') (\<lambda>f.
        Inr (append_if_str txt content_parts,
             append_if_str reasoning reasoning_parts,
             py_or f finish_reason))))))"

text \<open>\<^verbatim>\<open>chunk.get("choices", []) or []\<close>, made ready for iteration.\<close>

definition chunk_choices :: "json \<Rightarrow> py_error + json list" where
  "chunk_choices chunk =
     ebind (py_get_default chunk ''choices'' (JList [])) (\<lambda>v. py_iter (py_or v (JList [])))"

definition chat_chunk_body :: "json \<Rightarrow> chat_acc \<Rightarrow> py_error + chat_acc" where
  "chat_chunk_body chunk acc =
     ebind (chunk_choices chunk) (\<lambda>choices. for_each chat_choice_body choices acc)"

text \<open>
  \<^verbatim>\<open>int(time.time())\<close> is read once for the synthesized id and once for
  \<^verbatim>\<open>created\<close>; the two readings are the parameters \<open>t_id\<close> and \<open>t_created\<close>.
\<close>

definition aggregate_chat_chunks ::
  "int \<Rightarrow> int \<Rightarrow> (json \<Rightarrow> string) \<Rightarrow> json list \<Rightarrow> string \<Rightarrow> py_error + json" where
  "aggregate_chat_chunks t_id t_created rp chunks fallback_model =
     (if chunks = [] then
        Inr (JDict
          [(''id'', JStr (''chatcmpl-stream-'' @ str_int t_id)),
           (''object'', JStr ''chat.completion''),
           (''created'', JInt t_created),
           (''model'', JStr fallback_model),
           (''choices'', JList
              [JDict [(''index'', JInt 0),
                      (''message'', JDict [(''role'', JStr ''assistant''),
                                           (''content'', JStr [])]),
                      (''finish_reason'', JNull)]]),
           (''usage'', JNull)])
      else
        let first = hd chunks; lst = last chunks in
        ebind (py_get first ''model'') (\<lambda>m.
        let model = py_str rp (py_or m (JStr fallback_model)) in
        ebind (for_each chat_chunk_body chunks ([], [], JNull)) (\<lambda>acc.
        case acc of (content_parts, reasoning_parts, finish_reason) \<Rightarrow>
        let message = [(''role'', JStr ''assistant''),
                       (''content'', JStr (concat content_parts))];
            message' = (if reasoning_parts \<noteq> []
                        then AList.update ''reasoning_content''
                               (JStr (concat reasoning_parts)) message
                        else message) in
        ebind (py_get first ''id'') (\<lambda>i.
        ebind (py_get lst ''created'') (\<lambda>lc.
        ebind (py_get first ''created'') (\<lambda>fc.
        ebind (py_get lst ''usage'') (\<lambda>u.
        Inr (JDict
          [(''id'', py_or i (JStr (''chatcmpl-stream-'' @ str_int t_id))),
           (''object'', JStr ''chat.completion''),
           (''created'', py_or lc (py_or fc (JInt t_created))),
           (''model'', JStr model),
           (''choices'', JList
              [JDict [(''index'', JInt 0),
                      (''message'', JDict message'),
                      (''finish_reason'', finish_reason)]]),
           (''usage'', u)]))))))))"

text \<open>The loop variables of \<open>aggregate_completion_chunks\<close>: \<^verbatim>\<open>text_parts\<close> and \<^verbatim>\<open>finish_reason\<close>.\<close>

type_synonym completion_acc = "string list \<times> json"

definition completion_choice_body :: "json \<Rightarrow> completion_acc \<Rightarrow> py_error + completion_acc" where
  "completion_choice_body choice acc =
     (case acc of (text_parts, finish_reason) \<Rightarrow>
        ebind (py_get choice ''text'') (\<lambda>delta_text.
        ebind (py_get choice ''finish_reason'') (\<lambda>f.
        Inr (append_if_str delta_text text_parts, py_or f finish_reason))))"

definition completion_chunk_body :: "json \<Rightarrow> completion_acc \<Rightarrow> py_error + completion_acc" where
  "completion_chunk_body chunk acc =
     ebind (chunk_choices chunk) (\<lambda>choices. for_each completion_choice_body choices acc)"

definition aggregate_completion_chunks ::
  "int \<Rightarrow> int \<Rightarrow> (json \<Rightarrow> string) \<Rightarrow> json list \<Rightarrow> string \<Rightarrow> py_error + json" where
  "aggregate_completion_chunks t_id t_created rp chunks fallback_model =
     (if chunks = [] then
        Inr (JDict
          [(''id'', JStr (''cmpl-stream-'' @ str_int t_id)),
           (''object'', JStr ''text_completion''),
           (''created'', JInt t_created),
           (''model'', JStr fallback_model),
           (''choices'', JList
              [JDict [(''index'', JInt 0), (''text'', JStr []), (''finish_reason'', JNull)]]),
           (''usage'', JNull)])
      else
        let first = hd chunks; lst = last chunks in
        ebind (py_get first ''model'') (\<lambda>m.
        let model = py_str rp (py_or m (JStr fallback_model)) in
        ebind (for_each completion_chunk_body chunks ([], JNull)) (\<lambda>acc.
        case acc of (text_parts, finish_reason) \<Rightarrow>
        ebind (py_get first ''id'') (\<lambda>i.
        ebind (py_get lst ''created'') (\<lambda>lc.
        ebind (py_get first ''created'') (\<lambda>fc.
        ebind (py_get lst ''usage'') (\<lambda>u.
        Inr (JDict
          [(''id'', py_or i (JStr (''cmpl-stream-'' @ str_int t_id))),
           (''object'', JStr ''text_completion''),
           (''created'', py_or lc (py_or fc (JInt t_created))),
           (''model'', JStr model),
           (''choices'', JList
              [JDict [(''index'', JInt 0),
                      (''text'', JStr (concat text_parts)),
                      (''finish_reason'', finish_reason)]]),
           (''usage'', u)]))))))))"

section \<open>The client\<close>

record config =
  api_key :: string
  base_url :: string
  timeout_ms :: int
  default_model :: string
  enable_reasoner_fallback :: bool
  fallback_model :: string

definition RETRIABLE_STATUS_CODES :: "int set" where
  "RETRIABLE_STATUS_CODES = {408, 409, 429, 500, 502, 503, 504}"

definition should_reasoner_fallback :: "config \<Rightarrow> string \<Rightarrow> api_error \<Rightarrow> bool" where
  "should_reasoner_fallback cfg model error =
     (if \<not> enable_reasoner_fallback cfg then False
      else if model \<noteq> ''deepseek-reasoner'' then False
      else if fallback_model cfg = model then False
      else case err_status error of
             None \<Rightarrow> True
           | Some s \<Rightarrow> s \<in> RETRIABLE_STATUS_CODES)"

text \<open>
  One HTTP request as the transport sees it: method, URL, \<^verbatim>\<open>Accept\<close> header and the JSON
  body (the entries of the payload dictionary at the moment it is sent).
\<close>

record request =
  req_method :: string
  req_url :: string
  req_accept :: string
  req_body :: dict

text \<open>
  The transport either raises an exception of its own (invalid URL, connection refused,
  timeout: not a \<^verbatim>\<open>DeepSeekApiError\<close>), of which the model keeps the message, or delivers
  a response.
\<close>

datatype reply = TransportFailure string | Response http_response

text \<open>
  What can propagate out of a client method: a \<^verbatim>\<open>DeepSeekApiError\<close>, an exception of the
  transport, or an interpreter exception raised while aggregating chunks; and the message
  \<^verbatim>\<open>str(e)\<close> of each.
\<close>

datatype exn = ApiError api_error | TransportError string | PyError py_error

fun exn_message :: "exn \<Rightarrow> string" where
  "exn_message (ApiError error) = err_message error"
| "exn_message (TransportError m) = m"
| "exn_message (PyError e) = py_error_message e"

text \<open>
  Everything outside the program: the JSON decoder, \<^verbatim>\<open>repr\<close>, the clock (its two readings
  during the aggregation that follows the \<open>n\<close>-th request) and the server, whose reply may
  depend on all requests sent so far, the current one last.
\<close>

record env =
  loads :: decoder
  repr :: "json \<Rightarrow> string"
  clock :: "nat \<Rightarrow> int \<times> int"
  server :: "request list \<Rightarrow> reply"

text \<open>
  The mutable state: the dictionary objects, addressed by their index in \<open>heap\<close>, and the
  requests sent so far, oldest first. A reference is the index of an allocated object.
\<close>

record world =
  heap :: "dict list"
  sent :: "request list"

text \<open>\<^verbatim>\<open>{...}\<close> and \<^verbatim>\<open>dict(d)\<close> allocate a new object; \<^verbatim>\<open>d[k] = v\<close> and \<^verbatim>\<open>d.update(e)\<close> write into an existing one.\<close>

definition dict_new :: "dict \<Rightarrow> world \<Rightarrow> nat \<times> world" where
  "dict_new d w = (length (heap w), w\<lparr>heap := heap w @ [d]\<rparr>)"

definition dict_copy :: "nat \<Rightarrow> world \<Rightarrow> nat \<times> world" where
  "dict_copy p w = dict_new (heap w ! p) w"

definition dict_setitem :: "nat \<Rightarrow> string \<Rightarrow> json \<Rightarrow> world \<Rightarrow> world" where
  "dict_setitem p k v w = w\<lparr>heap := (heap w)[p := AList.update k v (heap w ! p)]\<rparr>"

definition dict_update :: "nat \<Rightarrow> dict \<Rightarrow> world \<Rightarrow> world" where
  "dict_update p e w = fold (\<lambda>kv. dict_setitem p (fst kv) (snd kv)) e w"

text \<open>\<^verbatim>\<open>if v is not None: payload[k] = v\<close>\<close>

definition set_if_not_none :: "nat \<Rightarrow> string \<Rightarrow> json \<Rightarrow> world \<Rightarrow> world" where
  "set_if_not_none p k v w = (if v \<noteq> JNull then dict_setitem p k v w else w)"

text \<open>\<^verbatim>\<open>normalize_base_url(base_url_override or self.config.base_url)\<close> followed by the path.\<close>

definition request_url :: "config \<Rightarrow> string option \<Rightarrow> string \<Rightarrow> string" where
  "request_url cfg base_url_override path =
     normalize_base_url
       (case base_url_override of
          None \<Rightarrow> base_url cfg
        | Some u \<Rightarrow> if u \<noteq> [] then u else base_url cfg) @ path"

definition send :: "env \<Rightarrow> request \<Rightarrow> world \<Rightarrow> reply \<times> world" where
  "send ev rq w = (server ev (sent w @ [rq]), w\<lparr>sent := sent w @ [rq]\<rparr>)"

definition request_json ::
  "env \<Rightarrow> config \<Rightarrow> string \<Rightarrow> string \<Rightarrow> dict \<Rightarrow> string option \<Rightarrow> world \<Rightarrow> (exn + json) \<times> world" where
  "request_json ev cfg method path body base_url_override w =
     (case send ev \<lparr>req_method = method, req_url = request_url cfg base_url_override path,
                    req_accept = ''application/json'', req_body = body\<rparr> w of
        (TransportFailure m, w') \<Rightarrow> (Inl (TransportError m), w')
      | (Response response, w') \<Rightarrow>
          if status_code response \<ge> 400
          then (Inl (ApiError (make_api_error response)), w')
          else (case resp_json response of
                  Inr j \<Rightarrow> (Inr j, w')
                | Inl msg \<Rightarrow>
                    (Inl (ApiError
                       \<lparr>err_message = ''DeepSeek API returned invalid JSON: '' @ msg,
                        err_status = Some (status_code response),
                        err_payload = JNull\<rparr>), w')))"

text \<open>
  \<^verbatim>\<open>s.strip()\<close>: the whitespace characters are removed at both ends. Among the code
  points below 256 these are 9 to 13, 28 to 32, 133 and 160.
\<close>

definition is_space :: "char \<Rightarrow> bool" where
  "is_space c =
     (let n = (of_char c :: nat)
      in (9 \<le> n \<and> n \<le> 13) \<or> (28 \<le> n \<and> n \<le> 32) \<or> n = 133 \<or> n = 160)"

definition strip :: "string \<Rightarrow> string" where
  "strip s = rev (dropWhile is_space (rev (dropWhile is_space s)))"

text \<open>
  The loop over the lines of an event stream: empty lines and lines without the
  \<^verbatim>\<open>data:\<close> marker are skipped, \<^verbatim>\<open>[DONE]\<close> ends the loop, a line that does not decode is dropped.
\<close>

fun sse_chunks :: "decoder \<Rightarrow> string list \<Rightarrow> json list" where
  "sse_chunks ld [] = []"
| "sse_chunks ld (line # rest) =
     (if line = [] then sse_chunks ld rest
      else if \<not> startswith line ''data:'' then sse_chunks ld rest
      else let data = strip (drop (length ''data:'') line) in
           if data = ''[DONE]'' then []
           else case ld data of
                  Inr j \<Rightarrow> j # sse_chunks ld rest
                | Inl _ \<Rightarrow> sse_chunks ld rest)"

definition request_sse_json ::
  "env \<Rightarrow> config \<Rightarrow> string \<Rightarrow> string \<Rightarrow> dict \<Rightarrow> string option \<Rightarrow> world
     \<Rightarrow> (exn + json list) \<times> world" where
  "request_sse_json ev cfg method path body base_url_override w =
     (case send ev \<lparr>req_method = method, req_url = request_url cfg base_url_override path,
                    req_accept = ''text/event-stream'', req_body = body\<rparr> w of
        (TransportFailure m, w') \<Rightarrow> (Inl (TransportError m), w')
      | (Response response, w') \<Rightarrow>
          if status_code response \<ge> 400
          then (Inl (ApiError (make_api_error_from_text (loads ev)
                                 (status_code response) (resp_text response))), w')
          else (Inr (sse_chunks (loads ev) (resp_lines response)), w'))"

text \<open>
  \<open>_chat_or_completion_request\<close>: the payload is the object at reference \<open>p\<close>; the result is
  the response with the number of chunks (\<^verbatim>\<open>None\<close> when the call did not stream).
\<close>

definition chat_or_completion_request ::
  "env \<Rightarrow> config \<Rightarrow> string \<Rightarrow> nat \<Rightarrow> string option \<Rightarrow> world
     \<Rightarrow> (exn + json \<times> json) \<times> world" where
  "chat_or_completion_request ev cfg path p base_url_override w =
     (let payload = heap w ! p in
      if truthy (dict_get payload ''stream'') then
        (case request_sse_json ev cfg ''POST'' path payload base_url_override w of
           (Inl e, w') \<Rightarrow> (Inl e, w')
         | (Inr chunks, w') \<Rightarrow>
             (let now = clock ev (length (sent w'));
                  model = py_str (repr ev) (dict_get payload ''model'');
                  agg = (if path = ''/chat/completions''
                         then aggregate_chat_chunks (fst now) (snd now) (repr ev) chunks model
                         else aggregate_completion_chunks (fst now) (snd now) (repr ev)
                                chunks model)
              in case agg of
                   Inl e \<Rightarrow> (Inl (PyError e), w')
                 | Inr response \<Rightarrow> (Inr (response, JInt (int (length chunks))), w')))
      else
        (case request_json ev cfg ''POST'' path payload base_url_override w of
           (Inl e, w') \<Rightarrow> (Inl e, w')
         | (Inr response, w') \<Rightarrow> (Inr (response, JNull), w')))"

text \<open>\<open>create_chat_completion\<close> and \<open>create_completion\<close>, called with a reference to the caller's payload.\<close>

text \<open>
  The first three statements of \<open>create_chat_completion\<close>: the model is computed, the
  payload is copied and the model is stored in the copy.
\<close>

definition chat_payload :: "env \<Rightarrow> config \<Rightarrow> nat \<Rightarrow> world \<Rightarrow> string \<times> nat \<times> world" where
  "chat_payload ev cfg payload w =
     (let model = py_str (repr ev)
                    (py_or (dict_get (heap w ! payload) ''model'') (JStr (default_model cfg)));
          (payload', w1) = dict_copy payload w;
          w2 = dict_setitem payload' ''model'' (JStr model) w1
      in (model, payload', w2))"

definition create_chat_completion ::
  "env \<Rightarrow> config \<Rightarrow> nat \<Rightarrow> world \<Rightarrow> (exn + json) \<times> world" where
  "create_chat_completion ev cfg payload w =
     (let (model, payload', w2) = chat_payload ev cfg payload w
      in case chat_or_completion_request ev cfg ''/chat/completions'' payload' None w2 of
           (Inr (response, stream_chunk_count), w3) \<Rightarrow>
             (Inr (JDict [(''response'', response),
                          (''fallback'', JNull),
                          (''stream_chunk_count'', stream_chunk_count)]), w3)
         | (Inl (ApiError error), w3) \<Rightarrow>
             if \<not> should_reasoner_fallback cfg model error then (Inl (ApiError error), w3)
             else
               (let (fallback_payload, w4) = dict_copy payload' w3;
                    w5 = dict_setitem fallback_payload ''model'' (JStr (fallback_model cfg)) w4
                in case chat_or_completion_request ev cfg ''/chat/completions''
                          fallback_payload None w5 of
                     (Inl e, w6) \<Rightarrow> (Inl e, w6)
                   | (Inr (response, stream_chunk_count), w6) \<Rightarrow>
                       (Inr (JDict
                          [(''response'', response),
                           (''fallback'', JDict
                              [(''from_model'', JStr model),
                               (''to_model'', JStr (fallback_model cfg)),
                               (''reason'', JStr (err_message error))]),
                           (''stream_chunk_count'', stream_chunk_count)]), w6))
         | (Inl e, w3) \<Rightarrow> (Inl e, w3))"

text \<open>
  The first two statements of \<open>create_completion\<close>: the payload is copied, and the model
  is computed from the copy and stored in it.
\<close>

definition completion_payload :: "env \<Rightarrow> config \<Rightarrow> nat \<Rightarrow> world \<Rightarrow> nat \<times> world" where
  "completion_payload ev cfg payload w =
     (let (payload', w1) = dict_copy payload w;
          model = py_str (repr ev)
                    (py_or (dict_get (heap w1 ! payload') ''model'') (JStr (default_model cfg)));
          w2 = dict_setitem payload' ''model'' (JStr model) w1
      in (payload', w2))"

definition create_completion ::
  "env \<Rightarrow> config \<Rightarrow> nat \<Rightarrow> world \<Rightarrow> (exn + json) \<times> world" where
  "create_completion ev cfg payload w =
     (let (payload', w2) = completion_payload ev cfg payload w
      in case chat_or_completion_request ev cfg ''/completions'' payload' None w2 of
           (Inr (response, stream_chunk_count), w3) \<Rightarrow>
             (Inr (JDict [(''response'', response),
                          (''used_beta_base'', JBool False),
                          (''stream_chunk_count'', stream_chunk_count)]), w3)
         | (Inl (ApiError error), w3) \<Rightarrow>
             if \<not> should_retry_completion_on_beta error then (Inl (ApiError error), w3)
             else
               (case chat_or_completion_request ev cfg ''/completions'' payload'
                       (Some (build_beta_base_url (base_url cfg))) w3 of
                  (Inl e, w4) \<Rightarrow> (Inl e, w4)
                | (Inr (response, stream_chunk_count), w4) \<Rightarrow>
                    (Inr (JDict [(''response'', response),
                                 (''used_beta_base'', JBool True),
                                 (''stream_chunk_count'', stream_chunk_count)]), w4))
         | (Inl e, w3) \<Rightarrow> (Inl e, w3))"

section \<open>The chat-completion tool\<close>

text \<open>
  \<open>chat_completion\<close> builds the payload in a fresh dictionary and hands it to the client;
  \<open>build_chat_payload\<close> is its body up to that call. An optional parameter that was not
  supplied is \<open>JNull\<close> (\<^verbatim>\<open>None\<close>); the client's configuration is the parameter \<open>cfg\<close>.
\<close>

definition build_chat_payload ::
  "json list \<Rightarrow> json \<Rightarrow> bool \<Rightarrow> json \<Rightarrow> json \<Rightarrow> json \<Rightarrow> json \<Rightarrow> json \<Rightarrow> json \<Rightarrow> json
     \<Rightarrow> json \<Rightarrow> json \<Rightarrow> dict option \<Rightarrow> world \<Rightarrow> nat \<times> world" where
  "build_chat_payload messages model stream temperature top_p max_tokens
       max_completion_tokens stop response_format tools tool_choice thinking extra_body w =
     (let (payload, w0) = dict_new [(''messages'', JList messages),
                                    (''stream'', JBool stream)] w;
          w1 = (if truthy model then dict_setitem payload ''model'' model w0 else w0);
          w2 = set_if_not_none payload ''temperature'' temperature w1;
          w3 = set_if_not_none payload ''top_p'' top_p w2;
          w4 = set_if_not_none payload ''max_tokens'' max_tokens w3;
          w5 = set_if_not_none payload ''max_completion_tokens'' max_completion_tokens w4;
          w6 = set_if_not_none payload ''stop'' stop w5;
          w7 = set_if_not_none payload ''response_format'' response_format w6;
          w8 = set_if_not_none payload ''tools'' tools w7;
          w9 = set_if_not_none payload ''tool_choice'' tool_choice w8;
          w10 = set_if_not_none payload ''thinking'' thinking w9;
          w11 = (case extra_body of
                   None \<Rightarrow> w10
                 | Some e \<Rightarrow> if e \<noteq> [] then dict_update payload e w10 else w10)
      in (payload, w11))"

definition chat_completion ::
  "env \<Rightarrow> config \<Rightarrow> json list \<Rightarrow> json \<Rightarrow> bool \<Rightarrow> json \<Rightarrow> json \<Rightarrow> json \<Rightarrow> json \<Rightarrow> json
     \<Rightarrow> json \<Rightarrow> json \<Rightarrow> json \<Rightarrow> json \<Rightarrow> dict option \<Rightarrow> world \<Rightarrow> (exn + json) \<times> world" where
  "chat_completion ev cfg messages model stream temperature top_p max_tokens
       max_completion_tokens stop response_format tools tool_choice thinking extra_body w =
     (let (payload, w') = build_chat_payload messages model stream temperature top_p max_tokens
                            max_completion_tokens stop response_format tools tool_choice
                            thinking extra_body w
      in create_chat_completion ev cfg payload w')"

section \<open>Chunks read declaratively\<close>

text \<open>
  The shape of the chunks on which the aggregation loops run through: a chunk is a
  dictionary whose \<^verbatim>\<open>choices\<close> is a list of choices or a falsy value (absent, \<^verbatim>\<open>None\<close>,
  empty); a chat choice is a dictionary whose \<^verbatim>\<open>delta\<close> is a dictionary or a falsy value;
  a completion choice is a dictionary. On any other value the Python raises.
\<close>

fun chat_choice_ok :: "json \<Rightarrow> bool" where
  "chat_choice_ok (JDict c) =
     (case dict_get c ''delta'' of JDict d \<Rightarrow> True | v \<Rightarrow> \<not> truthy v)"
| "chat_choice_ok _ = False"

fun completion_choice_ok :: "json \<Rightarrow> bool" where
  "completion_choice_ok (JDict c) = True"
| "completion_choice_ok _ = False"

fun chunk_ok :: "(json \<Rightarrow> bool) \<Rightarrow> json \<Rightarrow> bool" where
  "chunk_ok ok (JDict d) =
     (case dict_get d ''choices'' of JList cs \<Rightarrow> list_all ok cs | v \<Rightarrow> \<not> truthy v)"
| "chunk_ok ok _ = False"

text \<open>The choices of one chunk, and of all chunks in arrival order.\<close>

fun choices_of :: "json \<Rightarrow> json list" where
  "choices_of (JDict d) = (case dict_get d ''choices'' of JList cs \<Rightarrow> cs | _ \<Rightarrow> [])"
| "choices_of _ = []"

definition all_choices :: "json list \<Rightarrow> json list" where
  "all_choices chunks = concat (map choices_of chunks)"

text \<open>A field of a value that is a dictionary (\<^verbatim>\<open>None\<close> otherwise).\<close>

fun field :: "string \<Rightarrow> json \<Rightarrow> json" where
  "field k (JDict d) = dict_get d k"
| "field k _ = JNull"

text \<open>The string fragment that a value carries, if it is a string.\<close>

fun fragment :: "json \<Rightarrow> string list" where
  "fragment (JStr s) = [s]"
| "fragment _ = []"

text \<open>
  The \<^verbatim>\<open>delta.content\<close> (or \<^verbatim>\<open>delta.reasoning_content\<close>) string fragments and the
  \<^verbatim>\<open>text\<close> string fragments of all choices, and all \<^verbatim>\<open>finish_reason\<close> values, in order.
\<close>

definition delta_fragments :: "string \<Rightarrow> json list \<Rightarrow> string list" where
  "delta_fragments k chunks =
     concat (map (\<lambda>choice. fragment (field k (field ''delta'' choice))) (all_choices chunks))"

definition text_fragments :: "json list \<Rightarrow> string list" where
  "text_fragments chunks =
     concat (map (\<lambda>choice. fragment (field ''text'' choice)) (all_choices chunks))"

definition finish_reasons :: "json list \<Rightarrow> json list" where
  "finish_reasons chunks = map (field ''finish_reason'') (all_choices chunks)"

text \<open>The last value of a list that satisfies a test, \<^verbatim>\<open>None\<close> when there is none.\<close>

definition last_such :: "(json \<Rightarrow> bool) \<Rightarrow> json list \<Rightarrow> json" where
  "last_such P vs = (case rev (filter P vs) of [] \<Rightarrow> JNull | v # _ \<Rightarrow> v)"

definition last_truthy :: "json list \<Rightarrow> json" where
  "last_truthy vs = last_such truthy vs"

definition last_non_null :: "json list \<Rightarrow> json" where
  "last_non_null vs = last_such (\<lambda>v. v \<noteq> JNull) vs"

section \<open>Example inputs\<close>

text \<open>
  In the examples every value given to \<^verbatim>\<open>str\<close> is a string, so \<^verbatim>\<open>repr\<close> is never
  consulted; it is fixed to a constant function.
\<close>

definition example_repr :: "json \<Rightarrow> string" where
  "example_repr v = ''...''"

text \<open>The chunks of the repository's tests \<^verbatim>\<open>test_aggregate_chat_chunks_collects_content\<close> and
  \<^verbatim>\<open>test_aggregate_completion_chunks_collects_text\<close>.\<close>

definition test_usage :: "int \<Rightarrow> int \<Rightarrow> int \<Rightarrow> json" where
  "test_usage p c t =
     JDict [(''prompt_tokens'', JInt p), (''completion_tokens'', JInt c), (''total_tokens'', JInt t)]"

definition test_chat_chunks :: "json list" where
  "test_chat_chunks =
     [JDict [(''id'', JStr ''abc''), (''created'', JInt 1), (''model'', JStr ''deepseek-chat''),
             (''choices'', JList
                [JDict [(''index'', JInt 0),
                        (''delta'', JDict [(''role'', JStr ''assistant''),
                                           (''content'', JStr ''HELLO_'')])]])],
      JDict [(''id'', JStr ''abc''), (''created'', JInt 2), (''model'', JStr ''deepseek-chat''),
             (''choices'', JList
                [JDict [(''index'', JInt 0),
                        (''delta'', JDict [(''content'', JStr ''WORLD'')]),
                        (''finish_reason'', JStr ''stop'')]]),
             (''usage'', test_usage 1 2 3)]]"

definition test_completion_chunks :: "json list" where
  "test_completion_chunks =
     [JDict [(''id'', JStr ''cmpl-1''), (''created'', JInt 10), (''model'', JStr ''deepseek-chat''),
             (''choices'', JList [JDict [(''index'', JInt 0), (''text'', JStr ''foo'')]])],
      JDict [(''id'', JStr ''cmpl-1''), (''created'', JInt 11), (''model'', JStr ''deepseek-chat''),
             (''choices'', JList
                [JDict [(''index'', JInt 0), (''text'', JStr ''bar''),
                        (''finish_reason'', JStr ''stop'')]]),
             (''usage'', test_usage 2 2 4)]]"

text \<open>A stream whose last chunk carries an empty string as \<^verbatim>\<open>finish_reason\<close>.\<close>

definition empty_finish_chunks :: "json list" where
  "empty_finish_chunks =
     [JDict [(''id'', JStr ''abc''), (''created'', JInt 1), (''model'', JStr ''deepseek-chat''),
             (''choices'', JList
                [JDict [(''index'', JInt 0),
                        (''delta'', JDict [(''content'', JStr ''HELLO'')]),
                        (''finish_reason'', JStr ''stop'')]])],
      JDict [(''id'', JStr ''abc''), (''created'', JInt 2), (''model'', JStr ''deepseek-chat''),
             (''choices'', JList
                [JDict [(''index'', JInt 0),
                        (''delta'', JDict []),
                        (''finish_reason'', JStr [])]])]]"

text \<open>A stream with two choices in every chunk.\<close>

definition two_choice_chunks :: "json list" where
  "two_choice_chunks =
     [JDict [(''id'', JStr ''x1''),
             (''choices'', JList
                [JDict [(''index'', JInt 0),
                        (''delta'', JDict [(''content'', JStr ''a''),
                                           (''reasoning_content'', JStr ''x'')]),
                        (''text'', JStr ''a'')],
                 JDict [(''index'', JInt 1), (''delta'', JDict [(''content'', JStr ''b'')]),
                        (''text'', JStr ''b'')]])],
      JDict [(''id'', JStr ''x1''),
             (''choices'', JList
                [JDict [(''index'', JInt 0), (''delta'', JDict [(''content'', JStr ''c'')]),
                        (''text'', JStr ''c''), (''finish_reason'', JStr ''stop'')],
                 JDict [(''index'', JInt 1),
                        (''delta'', JDict [(''content'', JStr ''d''),
                                           (''reasoning_content'', JStr ''y'')]),
                        (''text'', JStr ''d''), (''finish_reason'', JStr ''length'')]])]]"

text \<open>A stream with a chunk whose only choice is \<^verbatim>\<open>null\<close>.\<close>

definition null_choice_chunks :: "json list" where
  "null_choice_chunks = [JDict [(''id'', JStr ''abc''), (''choices'', JList [JNull])]]"

text \<open>
  The \<^verbatim>\<open>created\<close> field as the specification words it: the first chunk's value, then the
  last chunk's, then the current time.
\<close>

definition created_first_then_last :: "json list \<Rightarrow> int \<Rightarrow> json" where
  "created_first_then_last chunks t =
     py_or (field ''created'' (hd chunks)) (py_or (field ''created'' (last chunks)) (JInt t))"

text \<open>
  An error body that is JSON without a message field, a success body, and a decoder that
  knows the two.
\<close>

definition detail_body :: string where
  \<open>detail_body = ''{"detail": "Not found"}''\<close>

definition ok_body :: string where
  \<open>ok_body = ''{"id": "r1"}''\<close>

definition example_loads :: decoder where
  "example_loads s =
     (if s = detail_body then Inr (JDict [(''detail'', JStr ''Not found'')])
      else if s = ok_body then Inr (JDict [(''id'', JStr ''r1'')])
      else Inl ''Expecting value: line 1 column 1 (char 0)'')"

definition detail_response :: http_response where
  "detail_response =
     \<lparr>status_code = 404, resp_text = detail_body,
      resp_json = Inr (JDict [(''detail'', JStr ''Not found'')]),
      resp_lines = [detail_body]\<rparr>"

text \<open>The response with a given status and body, decoded by \<open>example_loads\<close>.\<close>

definition example_response :: "int \<Rightarrow> string \<Rightarrow> http_response" where
  "example_response code txt =
     \<lparr>status_code = code, resp_text = txt, resp_json = example_loads txt, resp_lines = [txt]\<rparr>"

text \<open>
  A server that answers the first request with the given status and body and every later
  request with 200 and \<open>ok_body\<close>; a server that always answers with the given status and
  body; a server that cannot be reached; and a transport that refuses the URL, as httpx
  does for the base URL \<^verbatim>\<open>http://[beta]\<close>.
\<close>

definition fails_once :: "int \<Rightarrow> string \<Rightarrow> request list \<Rightarrow> reply" where
  "fails_once code txt rqs =
     (if length rqs \<le> 1
      then Response (example_response code txt)
      else Response (example_response 200 ok_body))"

definition always_fails :: "int \<Rightarrow> string \<Rightarrow> request list \<Rightarrow> reply" where
  "always_fails code txt rqs = Response (example_response code txt)"

definition unreachable :: "request list \<Rightarrow> reply" where
  "unreachable rqs = TransportFailure ''[Errno 111] Connection refused''"

definition invalid_url_message :: string where
  "invalid_url_message = ''Invalid IPv6 address: '' @ quoted ''[beta]''"

definition invalid_url :: "request list \<Rightarrow> reply" where
  "invalid_url rqs = TransportFailure invalid_url_message"

definition example_clock :: "nat \<Rightarrow> int \<times> int" where
  "example_clock n = (1700000000, 1700000000)"

definition example_env :: "(request list \<Rightarrow> reply) \<Rightarrow> env" where
  "example_env srv =
     \<lparr>loads = example_loads, repr = example_repr, clock = example_clock, server = srv\<rparr>"

definition example_config :: config where
  "example_config =
     \<lparr>api_key = ''sk-test'', base_url = ''https://api.deepseek.com/'', timeout_ms = 120000,
      default_model = ''deepseek-chat'', enable_reasoner_fallback = True,
      fallback_model = ''deepseek-chat''\<rparr>"

definition beta_host_config :: config where
  "beta_host_config = example_config\<lparr>base_url := ''http://[beta]''\<rparr>"

text \<open>A world that holds the caller's payload as its only object, and the payloads used.\<close>

definition caller_world :: "dict \<Rightarrow> world" where
  "caller_world d = \<lparr>heap = [d], sent = []\<rparr>"

definition chat_payload_for :: "string \<Rightarrow> dict" where
  "chat_payload_for m =
     [(''messages'', JList [JDict [(''role'', JStr ''user''), (''content'', JStr ''hi'')]]),
      (''stream'', JBool False),
      (''model'', JStr m)]"

definition prompt_payload :: dict where
  "prompt_payload = [(''prompt'', JStr ''def f():''), (''stream'', JBool False)]"

section \<open>Base URLs: properties\<close>

lemma endswith_suffix: "endswith s t \<longleftrightarrow> suffix t s"
proof
  assume "endswith s t"
  then have "s = take (length s - length t) s @ t"
    by (metis append_take_drop_id endswith_def)
  then show "suffix t s"
    by (metis suffixI)
next
  assume "suffix t s"
  then obtain p where "s = p @ t"
    by (auto simp: suffix_def)
  then show "endswith s t"
    by (simp add: endswith_def)
qed

lemma normalize_fixed:
  assumes "v \<noteq> []" and "last v \<noteq> CHR ''/''"
  shows "normalize_base_url v = v"
proof -
  from assms have "hd (rev v) \<noteq> CHR ''/''" and "rev v \<noteq> []"
    by (simp_all add: hd_rev)
  then have "dropWhile (\<lambda>c. c = CHR ''/'') (rev v) = rev v"
    by (cases "rev v") simp_all
  then show ?thesis
    by (simp add: normalize_base_url_def)
qed

lemma endswith_beta_last:
  assumes "endswith v ''/beta''"
  shows "v \<noteq> [] \<and> last v \<noteq> CHR ''/''"
proof -
  from assms obtain p where "v = p @ ''/beta''"
    by (auto simp: endswith_suffix suffix_def)
  then show ?thesis by simp
qed

lemma normalize_beta: "endswith v ''/beta'' \<Longrightarrow> normalize_base_url v = v"
  using endswith_beta_last normalize_fixed by blast

lemma endswith_append_beta: "endswith (v @ ''/beta'') ''/beta''"
  by (simp add: endswith_def)

lemma build_beta_ends: "endswith (build_beta_base_url v) ''/beta''"
  by (simp add: build_beta_base_url_def Let_def endswith_append_beta)

lemma build_beta_of_beta: "endswith v ''/beta'' \<Longrightarrow> build_beta_base_url v = v"
  by (simp add: build_beta_base_url_def Let_def normalize_beta)

text \<open>
  Claim C8. Applying \<open>build_beta_base_url\<close> twice gives the same result as applying it
  once, for every input string; and a base that already ends in \<^verbatim>\<open>/beta\<close> is returned
  as it is, so no second \<^verbatim>\<open>/beta\<close> is appended to it.
\<close>

theorem build_beta_base_url_idempotent:
  "build_beta_base_url (build_beta_base_url x) = build_beta_base_url x
   \<and> (endswith x ''/beta'' \<longrightarrow> build_beta_base_url x = x)"
  using build_beta_of_beta build_beta_ends by blast

theorem build_beta_base_url_idempotent_witness:
  "build_beta_base_url (build_beta_base_url ''https://api.deepseek.com//'')
     = ''https://api.deepseek.com/beta''
   \<and> endswith ''https://api.deepseek.com/beta'' ''/beta''
   \<and> build_beta_base_url ''https://api.deepseek.com/beta'' = ''https://api.deepseek.com/beta''"
proof -
  have e: "endswith ''https://api.deepseek.com/beta'' ''/beta''"
    by (simp add: endswith_def)
  have b: "build_beta_base_url ''https://api.deepseek.com//'' = ''https://api.deepseek.com/beta''"
    by (simp add: build_beta_base_url_def normalize_base_url_def endswith_def Let_def)
  from build_beta_base_url_idempotent [of "''https://api.deepseek.com//''"]
  have "build_beta_base_url (build_beta_base_url ''https://api.deepseek.com//'')
          = build_beta_base_url ''https://api.deepseek.com//''"
    by blast
  moreover from build_beta_base_url_idempotent [of "''https://api.deepseek.com/beta''"] e
  have "build_beta_base_url ''https://api.deepseek.com/beta'' = ''https://api.deepseek.com/beta''"
    by blast
  ultimately show ?thesis using e b by simp
qed

section \<open>Streaming aggregation: the loops in closed form\<close>

lemma ebind_Inr [simp]: "ebind (Inr v) f = f v"
  by (simp add: ebind_def)

lemma ebind_Inl [simp]: "ebind (Inl e) f = Inl e"
  by (simp add: ebind_def)

lemma last_such_Nil [simp]: "last_such P [] = JNull"
  by (simp add: last_such_def)

lemma last_such_snoc: "last_such P (vs @ [v]) = (if P v then v else last_such P vs)"
  by (simp add: last_such_def)

lemma last_such_Cons:
  "last_such P (v # vs) = (if list_ex P vs then last_such P vs else if P v then v else JNull)"
proof (induction vs rule: rev_induct)
  case Nil
  show ?case by (simp add: last_such_def)
next
  case (snoc x xs)
  have "last_such P (v # xs @ [x]) = last_such P ((v # xs) @ [x])" by simp
  also have "\<dots> = (if P x then x else last_such P (v # xs))"
    by (rule last_such_snoc)
  finally show ?case using snoc by (simp add: last_such_snoc)
qed

lemma last_such_holds: "list_ex P vs \<Longrightarrow> P (last_such P vs)"
  by (induction vs rule: rev_induct) (auto simp: last_such_snoc)

lemma last_such_append:
  "last_such P (us @ vs) = (if list_ex P vs then last_such P vs else last_such P us)"
  by (induction vs rule: rev_induct) (auto simp: last_such_snoc simp flip: append_assoc)

lemma last_truthy_none: "\<not> list_ex truthy vs \<Longrightarrow> last_truthy vs = JNull"
  by (induction vs rule: rev_induct) (auto simp: last_truthy_def last_such_snoc)

lemma py_or_last_truthy_Cons:
  "py_or (last_truthy (v # vs)) r = py_or (last_truthy vs) (py_or v r)"
proof (cases "list_ex truthy vs")
  case True
  then have "truthy (last_truthy vs)"
    unfolding last_truthy_def by (rule last_such_holds)
  with True show ?thesis
    by (simp add: py_or_def last_truthy_def last_such_Cons)
next
  case False
  then have "last_truthy vs = JNull" by (rule last_truthy_none)
  with False show ?thesis
    by (simp add: py_or_def last_truthy_def last_such_Cons)
qed

lemma py_or_last_truthy_append:
  "py_or (last_truthy (us @ vs)) r = py_or (last_truthy vs) (py_or (last_truthy us) r)"
proof (induction us arbitrary: r)
  case Nil
  show ?case by (simp add: last_truthy_def py_or_def)
next
  case (Cons u us)
  have "py_or (last_truthy ((u # us) @ vs)) r = py_or (last_truthy (us @ vs)) (py_or u r)"
    by (simp add: py_or_last_truthy_Cons)
  also have "\<dots> = py_or (last_truthy vs) (py_or (last_truthy us) (py_or u r))"
    by (rule Cons.IH)
  also have "\<dots> = py_or (last_truthy vs) (py_or (last_truthy (u # us)) r)"
    by (simp add: py_or_last_truthy_Cons)
  finally show ?case .
qed

lemma append_if_str_fragment: "append_if_str v parts = parts @ fragment v"
  by (cases v) (simp_all add: append_if_str_def)

lemma chat_choice_body_ok:
  assumes "chat_choice_ok choice"
  shows "chat_choice_body choice (cp, rp, fr) =
           Inr (cp @ fragment (field ''content'' (field ''delta'' choice)),
                rp @ fragment (field ''reasoning_content'' (field ''delta'' choice)),
                py_or (field ''finish_reason'' choice) fr)"
proof (cases choice)
  case (JDict c)
  show ?thesis
  proof (cases "dict_get c ''delta''")
    case (JDict d)
    with \<open>choice = JDict c\<close> show ?thesis
      by (simp add: chat_choice_body_def py_or_def append_if_str_fragment)
  qed (use assms \<open>choice = JDict c\<close> in
        \<open>simp_all add: chat_choice_body_def py_or_def append_if_str_fragment dict_get_def\<close>)
qed (use assms in simp_all)

lemma chat_choice_body_Inr:
  assumes "chat_choice_body choice acc = Inr acc'"
  shows "chat_choice_ok choice"
proof (cases choice)
  case (JDict c)
  obtain cp rp fr where acc: "acc = (cp, rp, fr)" by (cases acc) auto
  show ?thesis
  proof (rule ccontr)
    assume "\<not> chat_choice_ok choice"
    with JDict have "truthy (dict_get c ''delta'')" and "\<forall>d. dict_get c ''delta'' \<noteq> JDict d"
      by (auto split: json.splits)
    then have "py_get (py_or (dict_get c ''delta'') (JDict [])) ''content''
                 = Inl (no_attribute (dict_get c ''delta'') ''get'')"
      by (cases "dict_get c ''delta''") (simp_all add: py_or_def)
    with assms JDict acc show False
      by (simp add: chat_choice_body_def)
  qed
qed (use assms in \<open>auto simp: chat_choice_body_def split: prod.splits\<close>)

lemma chat_choices_loop:
  assumes "list_all chat_choice_ok cs"
  shows "for_each chat_choice_body cs (cp, rp, fr) =
           Inr (cp @ concat (map (\<lambda>c. fragment (field ''content'' (field ''delta'' c))) cs),
                rp @ concat (map (\<lambda>c. fragment (field ''reasoning_content'' (field ''delta'' c))) cs),
                py_or (last_truthy (map (field ''finish_reason'') cs)) fr)"
  using assms
proof (induction cs arbitrary: cp rp fr)
  case Nil
  show ?case by (simp add: py_or_def last_truthy_def)
next
  case (Cons c cs)
  then show ?case
    by (simp add: chat_choice_body_ok py_or_last_truthy_Cons)
qed

lemma for_each_Inr_all:
  assumes "for_each body xs s = Inr s'"
    and "\<And>x a b. body x a = Inr b \<Longrightarrow> ok x"
  shows "list_all ok xs"
  using assms(1)
proof (induction xs arbitrary: s)
  case Nil
  show ?case by simp
next
  case (Cons x xs)
  then show ?case
    by (auto split: sum.splits dest: assms(2))
qed

lemma chunk_choices_ok:
  assumes "chunk_ok ok chunk"
  shows "chunk_choices chunk = Inr (choices_of chunk)"
proof (cases chunk)
  case (JDict d)
  with assms show ?thesis
    by (cases "map_of d ''choices''"; cases "dict_get d ''choices''")
       (auto simp: chunk_choices_def dict_get_def dict_get_default_def py_or_def)
qed (use assms in simp_all)


lemma chunk_ok_choices: "chunk_ok ok chunk \<Longrightarrow> list_all ok (choices_of chunk)"
  by (cases chunk) (auto split: json.splits)

lemma chunk_ok_get: "chunk_ok ok chunk \<Longrightarrow> py_get chunk k = Inr (field k chunk)"
  by (cases chunk) simp_all

lemma chat_chunk_body_ok:
  assumes "chunk_ok chat_choice_ok chunk"
  shows "chat_chunk_body chunk (cp, rp, fr) =
           Inr (cp @ delta_fragments ''content'' [chunk],
                rp @ delta_fragments ''reasoning_content'' [chunk],
                py_or (last_truthy (finish_reasons [chunk])) fr)"
  using assms
  by (simp add: chat_chunk_body_def chunk_choices_ok chat_choices_loop chunk_ok_choices
        delta_fragments_def finish_reasons_def all_choices_def)

lemma all_choices_Cons: "all_choices (c # cs) = all_choices [c] @ all_choices cs"
  by (simp add: all_choices_def)

lemma delta_fragments_Cons:
  "delta_fragments k (c # cs) = delta_fragments k [c] @ delta_fragments k cs"
  by (simp add: delta_fragments_def all_choices_def)

lemma text_fragments_Cons: "text_fragments (c # cs) = text_fragments [c] @ text_fragments cs"
  by (simp add: text_fragments_def all_choices_def)

lemma finish_reasons_Cons: "finish_reasons (c # cs) = finish_reasons [c] @ finish_reasons cs"
  by (simp add: finish_reasons_def all_choices_def)

lemma chat_chunks_loop:
  assumes "list_all (chunk_ok chat_choice_ok) chunks"
  shows "for_each chat_chunk_body chunks (cp, rp, fr) =
           Inr (cp @ delta_fragments ''content'' chunks,
                rp @ delta_fragments ''reasoning_content'' chunks,
                py_or (last_truthy (finish_reasons chunks)) fr)"
  using assms
proof (induction chunks arbitrary: cp rp fr)
  case Nil
  show ?case
    by (simp add: delta_fragments_def finish_reasons_def all_choices_def
          last_truthy_def py_or_def)
next
  case (Cons c cs)
  from Cons.prems have c: "chunk_ok chat_choice_ok c" and cs: "list_all (chunk_ok chat_choice_ok) cs"
    by simp_all
  have "for_each chat_chunk_body (c # cs) (cp, rp, fr) =
          for_each chat_chunk_body cs
            (cp @ delta_fragments ''content'' [c],
             rp @ delta_fragments ''reasoning_content'' [c],
             py_or (last_truthy (finish_reasons [c])) fr)"
    by (simp add: chat_chunk_body_ok [OF c])
  also have "\<dots> =
          Inr ((cp @ delta_fragments ''content'' [c]) @ delta_fragments ''content'' cs,
               (rp @ delta_fragments ''reasoning_content'' [c])
                 @ delta_fragments ''reasoning_content'' cs,
               py_or (last_truthy (finish_reasons cs))
                 (py_or (last_truthy (finish_reasons [c])) fr))"
    by (rule Cons.IH [OF cs])
  also have "\<dots> =
          Inr (cp @ delta_fragments ''content'' (c # cs),
               rp @ delta_fragments ''reasoning_content'' (c # cs),
               py_or (last_truthy (finish_reasons (c # cs))) fr)"
    by (simp add: delta_fragments_Cons [of _ c cs] finish_reasons_Cons [of c cs]
          py_or_last_truthy_append)
  finally show ?case .
qed

lemma py_or_last_truthy_JNull [simp]: "py_or (last_truthy vs) JNull = last_truthy vs"
proof (cases "list_ex truthy vs")
  case True
  then have "truthy (last_truthy vs)"
    unfolding last_truthy_def by (rule last_such_holds)
  then show ?thesis by (simp add: py_or_def)
next
  case False
  then show ?thesis by (simp add: py_or_def last_truthy_none)
qed

lemma hd_last_ok:
  assumes "list_all P xs" and "xs \<noteq> []"
  shows "P (hd xs)" and "P (last xs)"
  using assms by (auto simp: list_all_iff)

lemma aggregate_chat_chunks_closed:
  assumes ok: "list_all (chunk_ok chat_choice_ok) chunks" and ne: "chunks \<noteq> []"
  shows "aggregate_chat_chunks t_id t_created rp chunks fb =
    Inr (JDict
      [(''id'', py_or (field ''id'' (hd chunks)) (JStr (''chatcmpl-stream-'' @ str_int t_id))),
       (''object'', JStr ''chat.completion''),
       (''created'', py_or (field ''created'' (last chunks))
                       (py_or (field ''created'' (hd chunks)) (JInt t_created))),
       (''model'', JStr (py_str rp (py_or (field ''model'' (hd chunks)) (JStr fb)))),
       (''choices'', JList
          [JDict [(''index'', JInt 0),
                  (''message'', JDict
                     ([(''role'', JStr ''assistant''),
                       (''content'', JStr (concat (delta_fragments ''content'' chunks)))]
                      @ (if delta_fragments ''reasoning_content'' chunks \<noteq> []
                         then [(''reasoning_content'',
                                JStr (concat (delta_fragments ''reasoning_content'' chunks)))]
                         else []))),
                  (''finish_reason'', last_truthy (finish_reasons chunks))]]),
       (''usage'', field ''usage'' (last chunks))])"
proof -
  from ok ne have h: "chunk_ok chat_choice_ok (hd chunks)" and l: "chunk_ok chat_choice_ok (last chunks)"
    by (rule hd_last_ok)+
  show ?thesis
    using ne
    by (simp add: aggregate_chat_chunks_def Let_def chunk_ok_get [OF h] chunk_ok_get [OF l]
          chat_chunks_loop [OF ok])
qed


lemma completion_choice_body_ok:
  assumes "completion_choice_ok choice"
  shows "completion_choice_body choice (tp, fr) =
           Inr (tp @ fragment (field ''text'' choice), py_or (field ''finish_reason'' choice) fr)"
  using assms
  by (cases choice) (simp_all add: completion_choice_body_def append_if_str_fragment)

lemma completion_choice_body_Inr:
  assumes "completion_choice_body choice acc = Inr acc'"
  shows "completion_choice_ok choice"
  using assms
  by (cases choice) (auto simp: completion_choice_body_def split: prod.splits)

lemma completion_choices_loop:
  assumes "list_all completion_choice_ok cs"
  shows "for_each completion_choice_body cs (tp, fr) =
           Inr (tp @ concat (map (\<lambda>c. fragment (field ''text'' c)) cs),
                py_or (last_truthy (map (field ''finish_reason'') cs)) fr)"
  using assms
proof (induction cs arbitrary: tp fr)
  case Nil
  show ?case by (simp add: py_or_def last_truthy_def)
next
  case (Cons c cs)
  then show ?case
    by (simp add: completion_choice_body_ok py_or_last_truthy_Cons)
qed

lemma completion_chunk_body_ok:
  assumes "chunk_ok completion_choice_ok chunk"
  shows "completion_chunk_body chunk (tp, fr) =
           Inr (tp @ text_fragments [chunk], py_or (last_truthy (finish_reasons [chunk])) fr)"
  using assms
  by (simp add: completion_chunk_body_def chunk_choices_ok completion_choices_loop
        chunk_ok_choices text_fragments_def finish_reasons_def all_choices_def)

lemma completion_chunks_loop:
  assumes "list_all (chunk_ok completion_choice_ok) chunks"
  shows "for_each completion_chunk_body chunks (tp, fr) =
           Inr (tp @ text_fragments chunks, py_or (last_truthy (finish_reasons chunks)) fr)"
  using assms
proof (induction chunks arbitrary: tp fr)
  case Nil
  show ?case
    by (simp add: text_fragments_def finish_reasons_def all_choices_def last_truthy_def py_or_def)
next
  case (Cons c cs)
  from Cons.prems have c: "chunk_ok completion_choice_ok c"
    and cs: "list_all (chunk_ok completion_choice_ok) cs"
    by simp_all
  have "for_each completion_chunk_body (c # cs) (tp, fr) =
          for_each completion_chunk_body cs
            (tp @ text_fragments [c], py_or (last_truthy (finish_reasons [c])) fr)"
    by (simp add: completion_chunk_body_ok [OF c])
  also have "\<dots> =
          Inr ((tp @ text_fragments [c]) @ text_fragments cs,
               py_or (last_truthy (finish_reasons cs))
                 (py_or (last_truthy (finish_reasons [c])) fr))"
    by (rule Cons.IH [OF cs])
  also have "\<dots> =
          Inr (tp @ text_fragments (c # cs), py_or (last_truthy (finish_reasons (c # cs))) fr)"
    by (simp add: text_fragments_Cons [of c cs] finish_reasons_Cons [of c cs]
          py_or_last_truthy_append)
  finally show ?case .
qed

lemma aggregate_completion_chunks_closed:
  assumes ok: "list_all (chunk_ok completion_choice_ok) chunks" and ne: "chunks \<noteq> []"
  shows "aggregate_completion_chunks t_id t_created rp chunks fb =
    Inr (JDict
      [(''id'', py_or (field ''id'' (hd chunks)) (JStr (''cmpl-stream-'' @ str_int t_id))),
       (''object'', JStr ''text_completion''),
       (''created'', py_or (field ''created'' (last chunks))
                       (py_or (field ''created'' (hd chunks)) (JInt t_created))),
       (''model'', JStr (py_str rp (py_or (field ''model'' (hd chunks)) (JStr fb)))),
       (''choices'', JList
          [JDict [(''index'', JInt 0),
                  (''text'', JStr (concat (text_fragments chunks))),
                  (''finish_reason'', last_truthy (finish_reasons chunks))]]),
       (''usage'', field ''usage'' (last chunks))])"
proof -
  from ok ne have h: "chunk_ok completion_choice_ok (hd chunks)"
    and l: "chunk_ok completion_choice_ok (last chunks)"
    by (rule hd_last_ok)+
  show ?thesis
    using ne
    by (simp add: aggregate_completion_chunks_def Let_def chunk_ok_get [OF h] chunk_ok_get [OF l]
          completion_chunks_loop [OF ok])
qed

text \<open>Conversely, the loops run through only on chunks of that shape.\<close>

lemma chunk_body_Inr:
  assumes run: "ebind (chunk_choices chunk) (\<lambda>choices. for_each body choices acc) = Inr acc'"
    and body: "\<And>x a b. body x a = Inr b \<Longrightarrow> ok x"
    and str: "\<And>s a. body (JStr s) a = Inl (no_attribute (JStr s) ''get'')"
  shows "chunk_ok ok chunk"
proof (cases chunk)
  case (JDict d)
  define v where "v = dict_get_default d ''choices'' (JList [])"
  have v: "dict_get d ''choices'' = (if map_of d ''choices'' = None then JNull else v)"
    by (auto simp: v_def dict_get_def dict_get_default_def)
  from run JDict have it: "ebind (py_iter (py_or v (JList []))) (\<lambda>choices. for_each body choices acc) = Inr acc'"
    by (simp add: chunk_choices_def v_def)
  show ?thesis
  proof (cases "truthy v")
    case False
    with JDict v show ?thesis
      by (cases v) (auto split: if_splits)
  next
    case True
    then have pv: "py_or v (JList []) = v" by (simp add: py_or_def)
    show ?thesis
    proof (cases v)
      case (JList cs)
      with it pv have "for_each body cs acc = Inr acc'" by simp
      then have "list_all ok cs" by (rule for_each_Inr_all) (rule body)
      moreover from True JList have "map_of d ''choices'' \<noteq> None"
        by (auto simp: v_def dict_get_default_def split: option.splits)
      ultimately show ?thesis using JDict v JList by simp
    next
      case (JDict kvs)
      with True obtain kv rest where "kvs = kv # rest" by (cases kvs) auto
      with it pv JDict show ?thesis by (simp add: str)
    next
      case (JStr s)
      with True obtain c rest where "s = c # rest" by (cases s) auto
      with it pv JStr show ?thesis by (simp add: str)
    qed (use it pv True in simp_all)
  qed
qed (use run in \<open>simp_all add: chunk_choices_def\<close>)

lemma chat_chunk_body_Inr:
  assumes "chat_chunk_body chunk acc = Inr acc'"
  shows "chunk_ok chat_choice_ok chunk"
proof (rule chunk_body_Inr)
  show "ebind (chunk_choices chunk) (\<lambda>choices. for_each chat_choice_body choices acc) = Inr acc'"
    using assms by (simp add: chat_chunk_body_def)
  show "chat_choice_ok x" if "chat_choice_body x a = Inr b" for x a b
    using that by (rule chat_choice_body_Inr)
  show "chat_choice_body (JStr s) a = Inl (no_attribute (JStr s) ''get'')" for s a
    by (simp add: chat_choice_body_def split: prod.splits)
qed

lemma completion_chunk_body_Inr:
  assumes "completion_chunk_body chunk acc = Inr acc'"
  shows "chunk_ok completion_choice_ok chunk"
proof (rule chunk_body_Inr)
  show "ebind (chunk_choices chunk) (\<lambda>choices. for_each completion_choice_body choices acc) = Inr acc'"
    using assms by (simp add: completion_chunk_body_def)
  show "completion_choice_ok x" if "completion_choice_body x a = Inr b" for x a b
    using that by (rule completion_choice_body_Inr)
  show "completion_choice_body (JStr s) a = Inl (no_attribute (JStr s) ''get'')" for s a
    by (simp add: completion_choice_body_def split: prod.splits)
qed

lemma ebind_Inr_iff: "ebind m f = Inr r \<longleftrightarrow> (\<exists>v. m = Inr v \<and> f v = Inr r)"
  by (cases m) simp_all

lemma aggregate_chat_chunks_returns:
  "(\<exists>r. aggregate_chat_chunks t_id t_created rp chunks fb = Inr r)
     \<longleftrightarrow> list_all (chunk_ok chat_choice_ok) chunks"
proof (cases "chunks = []")
  case True
  then show ?thesis by (simp add: aggregate_chat_chunks_def)
next
  case False
  show ?thesis
  proof
    assume "\<exists>r. aggregate_chat_chunks t_id t_created rp chunks fb = Inr r"
    with False obtain acc where "for_each chat_chunk_body chunks ([], [], JNull) = Inr acc"
      by (auto simp: aggregate_chat_chunks_def Let_def ebind_Inr_iff)
    then show "list_all (chunk_ok chat_choice_ok) chunks"
      by (rule for_each_Inr_all) (rule chat_chunk_body_Inr)
  next
    assume "list_all (chunk_ok chat_choice_ok) chunks"
    then show "\<exists>r. aggregate_chat_chunks t_id t_created rp chunks fb = Inr r"
      using False by (simp add: aggregate_chat_chunks_closed)
  qed
qed

lemma aggregate_completion_chunks_returns:
  "(\<exists>r. aggregate_completion_chunks t_id t_created rp chunks fb = Inr r)
     \<longleftrightarrow> list_all (chunk_ok completion_choice_ok) chunks"
proof (cases "chunks = []")
  case True
  then show ?thesis by (simp add: aggregate_completion_chunks_def)
next
  case False
  show ?thesis
  proof
    assume "\<exists>r. aggregate_completion_chunks t_id t_created rp chunks fb = Inr r"
    with False obtain acc where "for_each completion_chunk_body chunks ([], JNull) = Inr acc"
      by (auto simp: aggregate_completion_chunks_def Let_def ebind_Inr_iff)
    then show "list_all (chunk_ok completion_choice_ok) chunks"
      by (rule for_each_Inr_all) (rule completion_chunk_body_Inr)
  next
    assume "list_all (chunk_ok completion_choice_ok) chunks"
    then show "\<exists>r. aggregate_completion_chunks t_id t_created rp chunks fb = Inr r"
      using False by (simp add: aggregate_completion_chunks_closed)
  qed
qed

section \<open>Streaming aggregation: the claims\<close>

lemmas example_chunks_defs = test_chat_chunks_def test_completion_chunks_def
  empty_finish_chunks_def two_choice_chunks_def test_usage_def

lemmas declarative_defs = delta_fragments_def text_fragments_def finish_reasons_def
  all_choices_def last_truthy_def last_non_null_def last_such_def dict_get_def

lemma dict_get_content:
  "dict_get ([(''role'', r), (''content'', c)] @ rest) ''content'' = c"
  by (simp add: dict_get_def)

text \<open>
  Claim C1, as amended. For every list of chunks of the stream's shape (the lists on which
  the Python does not raise, see \<open>aggregate_chat_chunks_returns\<close>),
  \<open>aggregate_chat_chunks\<close> returns a response whose message content is the concatenation,
  in arrival order, of the \<^verbatim>\<open>delta.content\<close> string fragments, and whose
  \<^verbatim>\<open>finish_reason\<close> is the last truthy \<^verbatim>\<open>finish_reason\<close> value seen (\<^verbatim>\<open>None\<close>
  if there is none): a value that is not null but falsy, such as the empty string, does not
  replace an earlier one. \<open>aggregate_completion_chunks\<close> does the same with the \<^verbatim>\<open>text\<close>
  fragments.
\<close>

theorem aggregate_chunks_content_and_finish_reason:
  "(list_all (chunk_ok chat_choice_ok) chunks \<longrightarrow>
      (\<exists>i c m u msg.
         aggregate_chat_chunks t_id t_created rp chunks fb =
           Inr (JDict
             [(''id'', i), (''object'', JStr ''chat.completion''), (''created'', c),
              (''model'', m),
              (''choices'', JList
                 [JDict [(''index'', JInt 0),
                         (''message'', JDict msg),
                         (''finish_reason'', last_truthy (finish_reasons chunks))]]),
              (''usage'', u)])
         \<and> dict_get msg ''content'' = JStr (concat (delta_fragments ''content'' chunks))))
   \<and> (list_all (chunk_ok completion_choice_ok) chunks \<longrightarrow>
      (\<exists>i c m u.
         aggregate_completion_chunks t_id t_created rp chunks fb =
           Inr (JDict
             [(''id'', i), (''object'', JStr ''text_completion''), (''created'', c),
              (''model'', m),
              (''choices'', JList
                 [JDict [(''index'', JInt 0),
                         (''text'', JStr (concat (text_fragments chunks))),
                         (''finish_reason'', last_truthy (finish_reasons chunks))]]),
              (''usage'', u)])))"
proof (cases "chunks = []")
  case True
  then show ?thesis
    by (simp add: aggregate_chat_chunks_def aggregate_completion_chunks_def declarative_defs)
next
  case False
  show ?thesis
  proof (intro conjI impI)
    assume ok: "list_all (chunk_ok chat_choice_ok) chunks"
    show "\<exists>i c m u msg.
         aggregate_chat_chunks t_id t_created rp chunks fb =
           Inr (JDict
             [(''id'', i), (''object'', JStr ''chat.completion''), (''created'', c),
              (''model'', m),
              (''choices'', JList
                 [JDict [(''index'', JInt 0),
                         (''message'', JDict msg),
                         (''finish_reason'', last_truthy (finish_reasons chunks))]]),
              (''usage'', u)])
         \<and> dict_get msg ''content'' = JStr (concat (delta_fragments ''content'' chunks))"
      unfolding aggregate_chat_chunks_closed [OF ok False]
      by (intro exI conjI, rule refl, rule dict_get_content)
  next
    assume ok: "list_all (chunk_ok completion_choice_ok) chunks"
    show "\<exists>i c m u.
         aggregate_completion_chunks t_id t_created rp chunks fb =
           Inr (JDict
             [(''id'', i), (''object'', JStr ''text_completion''), (''created'', c),
              (''model'', m),
              (''choices'', JList
                 [JDict [(''index'', JInt 0),
                         (''text'', JStr (concat (text_fragments chunks))),
                         (''finish_reason'', last_truthy (finish_reasons chunks))]]),
              (''usage'', u)])"
      unfolding aggregate_completion_chunks_closed [OF ok False]
      by (intro exI, rule refl)
  qed
qed

lemma test_chat_chunks_ok: "list_all (chunk_ok chat_choice_ok) test_chat_chunks"
  by (simp add: example_chunks_defs dict_get_def)

lemma test_completion_chunks_ok: "list_all (chunk_ok completion_choice_ok) test_completion_chunks"
  by (simp add: example_chunks_defs dict_get_def)

theorem aggregate_chunks_content_and_finish_reason_witness:
  "list_all (chunk_ok chat_choice_ok) test_chat_chunks
   \<and> (\<exists>i c m u msg.
         aggregate_chat_chunks 0 0 example_repr test_chat_chunks ''deepseek-chat'' =
           Inr (JDict
             [(''id'', i), (''object'', JStr ''chat.completion''), (''created'', c),
              (''model'', m),
              (''choices'', JList
                 [JDict [(''index'', JInt 0),
                         (''message'', JDict msg),
                         (''finish_reason'', JStr ''stop'')]]),
              (''usage'', u)])
         \<and> dict_get msg ''content'' = JStr ''HELLO_WORLD'')
   \<and> list_all (chunk_ok completion_choice_ok) test_completion_chunks
   \<and> (\<exists>i c m u.
         aggregate_completion_chunks 0 0 example_repr test_completion_chunks ''deepseek-chat'' =
           Inr (JDict
             [(''id'', i), (''object'', JStr ''text_completion''), (''created'', c),
              (''model'', m),
              (''choices'', JList
                 [JDict [(''index'', JInt 0),
                         (''text'', JStr ''foobar''),
                         (''finish_reason'', JStr ''stop'')]]),
              (''usage'', u)]))"
proof -
  have f1: "last_truthy (finish_reasons test_chat_chunks) = JStr ''stop''"
    by (simp add: example_chunks_defs declarative_defs)
  have f2: "concat (delta_fragments ''content'' test_chat_chunks) = ''HELLO_WORLD''"
    by (simp add: example_chunks_defs declarative_defs)
  have f3: "last_truthy (finish_reasons test_completion_chunks) = JStr ''stop''"
    by (simp add: example_chunks_defs declarative_defs)
  have f4: "concat (text_fragments test_completion_chunks) = ''foobar''"
    by (simp add: example_chunks_defs declarative_defs)
  from aggregate_chunks_content_and_finish_reason
         [of test_chat_chunks 0 0 example_repr "''deepseek-chat''"]
    test_chat_chunks_ok
  have a: "\<exists>i c m u msg.
         aggregate_chat_chunks 0 0 example_repr test_chat_chunks ''deepseek-chat'' =
           Inr (JDict
             [(''id'', i), (''object'', JStr ''chat.completion''), (''created'', c),
              (''model'', m),
              (''choices'', JList
                 [JDict [(''index'', JInt 0),
                         (''message'', JDict msg),
                         (''finish_reason'', JStr ''stop'')]]),
              (''usage'', u)])
         \<and> dict_get msg ''content'' = JStr ''HELLO_WORLD''"
    unfolding f1 f2 by blast
  from aggregate_chunks_content_and_finish_reason
         [of test_completion_chunks 0 0 example_repr "''deepseek-chat''"]
    test_completion_chunks_ok
  have b: "\<exists>i c m u.
         aggregate_completion_chunks 0 0 example_repr test_completion_chunks ''deepseek-chat'' =
           Inr (JDict
             [(''id'', i), (''object'', JStr ''text_completion''), (''created'', c),
              (''model'', m),
              (''choices'', JList
                 [JDict [(''index'', JInt 0),
                         (''text'', JStr ''foobar''),
                         (''finish_reason'', JStr ''stop'')]]),
              (''usage'', u)])"
    unfolding f3 f4 by blast
  from a b test_chat_chunks_ok test_completion_chunks_ok show ?thesis by blast
qed

lemma empty_finish_chunks_ok: "list_all (chunk_ok chat_choice_ok) empty_finish_chunks"
  by (simp add: example_chunks_defs dict_get_def)

text \<open>
  The claim as stated fails where the last \<^verbatim>\<open>finish_reason\<close> that is not null is falsy:
  the stream \<open>empty_finish_chunks\<close> ends with \<^verbatim>\<open>"finish_reason": ""\<close>, which is the last
  non-null value, and the aggregated response carries the earlier \<^verbatim>\<open>"stop"\<close>.
\<close>

theorem finish_reason_last_non_null_counterexample:
  "aggregate_chat_chunks 0 0 example_repr empty_finish_chunks ''deepseek-chat'' =
     Inr (JDict
       [(''id'', JStr ''abc''), (''object'', JStr ''chat.completion''), (''created'', JInt 2),
        (''model'', JStr ''deepseek-chat''),
        (''choices'', JList
           [JDict [(''index'', JInt 0),
                   (''message'', JDict [(''role'', JStr ''assistant''),
                                        (''content'', JStr ''HELLO'')]),
                   (''finish_reason'', JStr ''stop'')]]),
        (''usage'', JNull)])
   \<and> last_non_null (finish_reasons empty_finish_chunks) = JStr []
   \<and> JStr ''stop'' \<noteq> last_non_null (finish_reasons empty_finish_chunks)"
proof -
  have "empty_finish_chunks \<noteq> []"
    by (simp add: example_chunks_defs)
  from aggregate_chat_chunks_closed [OF empty_finish_chunks_ok this, of 0 0 example_repr "''deepseek-chat''"]
  have "aggregate_chat_chunks 0 0 example_repr empty_finish_chunks ''deepseek-chat'' =
     Inr (JDict
       [(''id'', JStr ''abc''), (''object'', JStr ''chat.completion''), (''created'', JInt 2),
        (''model'', JStr ''deepseek-chat''),
        (''choices'', JList
           [JDict [(''index'', JInt 0),
                   (''message'', JDict [(''role'', JStr ''assistant''),
                                        (''content'', JStr ''HELLO'')]),
                   (''finish_reason'', JStr ''stop'')]]),
        (''usage'', JNull)])"
    by (simp add: example_chunks_defs declarative_defs py_or_def)
  moreover have "last_non_null (finish_reasons empty_finish_chunks) = JStr []"
    by (simp add: example_chunks_defs declarative_defs)
  ultimately show ?thesis by simp
qed

text \<open>
  Claim C7. On the empty chunk list both aggregators return a synthesized response
  instead of raising: the content (the text) is the empty string, \<^verbatim>\<open>finish_reason\<close> and
  \<^verbatim>\<open>usage\<close> are \<^verbatim>\<open>None\<close>, the id and the timestamp are made from the clock and
  the model is the fallback model.
\<close>

theorem aggregate_empty_chunks:
  "aggregate_chat_chunks t_id t_created rp [] fb =
     Inr (JDict
       [(''id'', JStr (''chatcmpl-stream-'' @ str_int t_id)),
        (''object'', JStr ''chat.completion''),
        (''created'', JInt t_created),
        (''model'', JStr fb),
        (''choices'', JList
           [JDict [(''index'', JInt 0),
                   (''message'', JDict [(''role'', JStr ''assistant''), (''content'', JStr [])]),
                   (''finish_reason'', JNull)]]),
        (''usage'', JNull)])
   \<and> aggregate_completion_chunks t_id t_created rp [] fb =
     Inr (JDict
       [(''id'', JStr (''cmpl-stream-'' @ str_int t_id)),
        (''object'', JStr ''text_completion''),
        (''created'', JInt t_created),
        (''model'', JStr fb),
        (''choices'', JList
           [JDict [(''index'', JInt 0), (''text'', JStr []), (''finish_reason'', JNull)]]),
        (''usage'', JNull)])"
  by (simp add: aggregate_chat_chunks_def aggregate_completion_chunks_def)

text \<open>
  Claim C5, as amended. For every non-empty list of chunks of the stream's shape, the
  aggregated response takes \<^verbatim>\<open>id\<close> from the first chunk (a synthesized id when that is
  falsy), \<^verbatim>\<open>model\<close> from the first chunk (the fallback model when that is falsy), and
  \<^verbatim>\<open>created\<close> from the last chunk, falling back to the first chunk's \<^verbatim>\<open>created\<close> and
  then to the current time; \<^verbatim>\<open>usage\<close> is the last chunk's \<^verbatim>\<open>usage\<close> field
  (\<^verbatim>\<open>None\<close> when absent).
\<close>

theorem aggregate_chunks_header_fields:
  assumes "chunks \<noteq> []"
  shows
  "(list_all (chunk_ok chat_choice_ok) chunks \<longrightarrow>
      (\<exists>choices.
         aggregate_chat_chunks t_id t_created rp chunks fb =
           Inr (JDict
             [(''id'', py_or (field ''id'' (hd chunks))
                         (JStr (''chatcmpl-stream-'' @ str_int t_id))),
              (''object'', JStr ''chat.completion''),
              (''created'', py_or (field ''created'' (last chunks))
                              (py_or (field ''created'' (hd chunks)) (JInt t_created))),
              (''model'', JStr (py_str rp (py_or (field ''model'' (hd chunks)) (JStr fb)))),
              (''choices'', choices),
              (''usage'', field ''usage'' (last chunks))])))
   \<and> (list_all (chunk_ok completion_choice_ok) chunks \<longrightarrow>
      (\<exists>choices.
         aggregate_completion_chunks t_id t_created rp chunks fb =
           Inr (JDict
             [(''id'', py_or (field ''id'' (hd chunks))
                         (JStr (''cmpl-stream-'' @ str_int t_id))),
              (''object'', JStr ''text_completion''),
              (''created'', py_or (field ''created'' (last chunks))
                              (py_or (field ''created'' (hd chunks)) (JInt t_created))),
              (''model'', JStr (py_str rp (py_or (field ''model'' (hd chunks)) (JStr fb)))),
              (''choices'', choices),
              (''usage'', field ''usage'' (last chunks))])))"
  using assms
  by (simp add: aggregate_chat_chunks_closed aggregate_completion_chunks_closed)

theorem aggregate_chunks_header_fields_witness:
  "test_chat_chunks \<noteq> []
   \<and> list_all (chunk_ok chat_choice_ok) test_chat_chunks
   \<and> (\<exists>choices.
         aggregate_chat_chunks 7 8 example_repr test_chat_chunks ''fallback'' =
           Inr (JDict
             [(''id'', JStr ''abc''),
              (''object'', JStr ''chat.completion''),
              (''created'', JInt 2),
              (''model'', JStr ''deepseek-chat''),
              (''choices'', choices),
              (''usage'', test_usage 1 2 3)]))
   \<and> test_completion_chunks \<noteq> []
   \<and> list_all (chunk_ok completion_choice_ok) test_completion_chunks
   \<and> (\<exists>choices.
         aggregate_completion_chunks 7 8 example_repr test_completion_chunks ''fallback'' =
           Inr (JDict
             [(''id'', JStr ''cmpl-1''),
              (''object'', JStr ''text_completion''),
              (''created'', JInt 11),
              (''model'', JStr ''deepseek-chat''),
              (''choices'', choices),
              (''usage'', test_usage 2 2 4)]))"
proof -
  have n1: "test_chat_chunks \<noteq> []" and n2: "test_completion_chunks \<noteq> []"
    by (simp_all add: example_chunks_defs)
  have "\<exists>choices.
         aggregate_chat_chunks 7 8 example_repr test_chat_chunks ''fallback'' =
           Inr (JDict
             [(''id'', JStr ''abc''),
              (''object'', JStr ''chat.completion''),
              (''created'', JInt 2),
              (''model'', JStr ''deepseek-chat''),
              (''choices'', choices),
              (''usage'', test_usage 1 2 3)])"
    using aggregate_chunks_header_fields [OF n1, of 7 8 example_repr "''fallback''"]
      test_chat_chunks_ok
    by (simp add: test_chat_chunks_def dict_get_def py_or_def)
  moreover have "\<exists>choices.
         aggregate_completion_chunks 7 8 example_repr test_completion_chunks ''fallback'' =
           Inr (JDict
             [(''id'', JStr ''cmpl-1''),
              (''object'', JStr ''text_completion''),
              (''created'', JInt 11),
              (''model'', JStr ''deepseek-chat''),
              (''choices'', choices),
              (''usage'', test_usage 2 2 4)])"
    using aggregate_chunks_header_fields [OF n2, of 7 8 example_repr "''fallback''"]
      test_completion_chunks_ok
    by (simp add: test_completion_chunks_def dict_get_def py_or_def)
  ultimately show ?thesis
    using n1 n2 test_chat_chunks_ok test_completion_chunks_ok by blast
qed

text \<open>
  The claim as stated takes \<^verbatim>\<open>created\<close> from the first chunk and falls back to the last
  one. On the chunks of the repository's own test the first chunk has \<^verbatim>\<open>created\<close> 1 and
  the last has 2: the response carries 2.
\<close>

theorem created_from_first_chunk_counterexample:
  "aggregate_chat_chunks 7 8 example_repr test_chat_chunks ''fallback'' =
     Inr (JDict
       [(''id'', JStr ''abc''), (''object'', JStr ''chat.completion''), (''created'', JInt 2),
        (''model'', JStr ''deepseek-chat''),
        (''choices'', JList
           [JDict [(''index'', JInt 0),
                   (''message'', JDict [(''role'', JStr ''assistant''),
                                        (''content'', JStr ''HELLO_WORLD'')]),
                   (''finish_reason'', JStr ''stop'')]]),
        (''usage'', test_usage 1 2 3)])
   \<and> created_first_then_last test_chat_chunks 8 = JInt 1
   \<and> JInt 2 \<noteq> created_first_then_last test_chat_chunks 8"
proof -
  have "test_chat_chunks \<noteq> []"
    by (simp add: example_chunks_defs)
  from aggregate_chat_chunks_closed [OF test_chat_chunks_ok this, of 7 8 example_repr "''fallback''"]
  have "aggregate_chat_chunks 7 8 example_repr test_chat_chunks ''fallback'' =
     Inr (JDict
       [(''id'', JStr ''abc''), (''object'', JStr ''chat.completion''), (''created'', JInt 2),
        (''model'', JStr ''deepseek-chat''),
        (''choices'', JList
           [JDict [(''index'', JInt 0),
                   (''message'', JDict [(''role'', JStr ''assistant''),
                                        (''content'', JStr ''HELLO_WORLD'')]),
                   (''finish_reason'', JStr ''stop'')]]),
        (''usage'', test_usage 1 2 3)])"
    by (simp add: test_chat_chunks_def declarative_defs py_or_def)
  moreover have "created_first_then_last test_chat_chunks 8 = JInt 1"
    by (simp add: created_first_then_last_def test_chat_chunks_def dict_get_def py_or_def)
  ultimately show ?thesis by simp
qed

lemma fragments_by_chunk:
  "delta_fragments k chunks =
     concat (map (\<lambda>chunk. concat (map (\<lambda>choice. fragment (field k (field ''delta'' choice)))
                                     (choices_of chunk))) chunks)"
  "text_fragments chunks =
     concat (map (\<lambda>chunk. concat (map (\<lambda>choice. fragment (field ''text'' choice))
                                     (choices_of chunk))) chunks)"
  by (induction chunks) (simp_all add: delta_fragments_def text_fragments_def all_choices_def)

lemma not_Inr_Inl: "(\<forall>r. x \<noteq> Inr r) \<Longrightarrow> \<exists>e. x = Inl e"
  by (cases x) auto

text \<open>
  Claim C9, as amended. For every list of chunks of the stream's shape and every fallback
  model, the response of either aggregator has a \<^verbatim>\<open>choices\<close> list of exactly one
  element, whose \<^verbatim>\<open>index\<close> is 0, however many choices the chunks carry. Its content
  (its text) is the concatenation, chunk after chunk, of the fragments of all the choices
  of the chunk; the chat message carries \<^verbatim>\<open>reasoning_content\<close>, merged in the same way,
  exactly when a reasoning fragment appeared. On every other list of chunks the aggregator
  raises and returns no response.
\<close>

theorem aggregate_chunks_single_choice:
  "(list_all (chunk_ok chat_choice_ok) chunks \<longrightarrow>
      (\<exists>i c m u fr.
         aggregate_chat_chunks t_id t_created rp chunks fb =
           Inr (JDict
             [(''id'', i), (''object'', JStr ''chat.completion''), (''created'', c),
              (''model'', m),
              (''choices'', JList
                 [JDict
                    [(''index'', JInt 0),
                     (''message'', JDict
                        ([(''role'', JStr ''assistant''),
                          (''content'', JStr (concat (concat (map (\<lambda>chunk.
                              concat (map (\<lambda>choice.
                                             fragment (field ''content'' (field ''delta'' choice)))
                                        (choices_of chunk))) chunks))))]
                         @ (if concat (map (\<lambda>chunk.
                                  concat (map (\<lambda>choice.
                                     fragment (field ''reasoning_content'' (field ''delta'' choice)))
                                            (choices_of chunk))) chunks) \<noteq> []
                            then [(''reasoning_content'', JStr (concat (concat (map (\<lambda>chunk.
                                    concat (map (\<lambda>choice.
                                       fragment (field ''reasoning_content''
                                                   (field ''delta'' choice)))
                                              (choices_of chunk))) chunks))))]
                            else []))),
                     (''finish_reason'', fr)]]),
              (''usage'', u)])))
   \<and> (\<not> list_all (chunk_ok chat_choice_ok) chunks \<longrightarrow>
      (\<exists>e. aggregate_chat_chunks t_id t_created rp chunks fb = Inl e))
   \<and> (list_all (chunk_ok completion_choice_ok) chunks \<longrightarrow>
      (\<exists>i c m u fr.
         aggregate_completion_chunks t_id t_created rp chunks fb =
           Inr (JDict
             [(''id'', i), (''object'', JStr ''text_completion''), (''created'', c),
              (''model'', m),
              (''choices'', JList
                 [JDict [(''index'', JInt 0),
                         (''text'', JStr (concat (concat (map (\<lambda>chunk.
                             concat (map (\<lambda>choice. fragment (field ''text'' choice))
                                       (choices_of chunk))) chunks)))),
                         (''finish_reason'', fr)]]),
              (''usage'', u)])))
   \<and> (\<not> list_all (chunk_ok completion_choice_ok) chunks \<longrightarrow>
      (\<exists>e. aggregate_completion_chunks t_id t_created rp chunks fb = Inl e))"
proof (intro conjI impI)
  assume ok: "list_all (chunk_ok chat_choice_ok) chunks"
  show "\<exists>i c m u fr.
         aggregate_chat_chunks t_id t_created rp chunks fb =
           Inr (JDict
             [(''id'', i), (''object'', JStr ''chat.completion''), (''created'', c),
              (''model'', m),
              (''choices'', JList
                 [JDict
                    [(''index'', JInt 0),
                     (''message'', JDict
                        ([(''role'', JStr ''assistant''),
                          (''content'', JStr (concat (concat (map (\<lambda>chunk.
                              concat (map (\<lambda>choice.
                                             fragment (field ''content'' (field ''delta'' choice)))
                                        (choices_of chunk))) chunks))))]
                         @ (if concat (map (\<lambda>chunk.
                                  concat (map (\<lambda>choice.
                                     fragment (field ''reasoning_content'' (field ''delta'' choice)))
                                            (choices_of chunk))) chunks) \<noteq> []
                            then [(''reasoning_content'', JStr (concat (concat (map (\<lambda>chunk.
                                    concat (map (\<lambda>choice.
                                       fragment (field ''reasoning_content''
                                                   (field ''delta'' choice)))
                                              (choices_of chunk))) chunks))))]
                            else []))),
                     (''finish_reason'', fr)]]),
              (''usage'', u)])"
  proof (cases "chunks = []")
    case True
    then show ?thesis
      by (simp add: aggregate_chat_chunks_def)
  next
    case False
    show ?thesis
      unfolding aggregate_chat_chunks_closed [OF ok False] fragments_by_chunk [symmetric]
      by (intro exI, rule refl)
  qed
next
  assume "\<not> list_all (chunk_ok chat_choice_ok) chunks"
  then have "\<forall>r. aggregate_chat_chunks t_id t_created rp chunks fb \<noteq> Inr r"
    using aggregate_chat_chunks_returns [of t_id t_created rp chunks fb] by blast
  then show "\<exists>e. aggregate_chat_chunks t_id t_created rp chunks fb = Inl e"
    by (rule not_Inr_Inl)
next
  assume ok: "list_all (chunk_ok completion_choice_ok) chunks"
  show "\<exists>i c m u fr.
         aggregate_completion_chunks t_id t_created rp chunks fb =
           Inr (JDict
             [(''id'', i), (''object'', JStr ''text_completion''), (''created'', c),
              (''model'', m),
              (''choices'', JList
                 [JDict [(''index'', JInt 0),
                         (''text'', JStr (concat (concat (map (\<lambda>chunk.
                             concat (map (\<lambda>choice. fragment (field ''text'' choice))
                                       (choices_of chunk))) chunks)))),
                         (''finish_reason'', fr)]]),
              (''usage'', u)])"
  proof (cases "chunks = []")
    case True
    then show ?thesis
      by (simp add: aggregate_completion_chunks_def)
  next
    case False
    show ?thesis
      unfolding aggregate_completion_chunks_closed [OF ok False] fragments_by_chunk [symmetric]
      by (intro exI, rule refl)
  qed
next
  assume "\<not> list_all (chunk_ok completion_choice_ok) chunks"
  then have "\<forall>r. aggregate_completion_chunks t_id t_created rp chunks fb \<noteq> Inr r"
    using aggregate_completion_chunks_returns [of t_id t_created rp chunks fb] by blast
  then show "\<exists>e. aggregate_completion_chunks t_id t_created rp chunks fb = Inl e"
    by (rule not_Inr_Inl)
qed

lemma two_choice_chunks_ok:
  "list_all (chunk_ok chat_choice_ok) two_choice_chunks"
  "list_all (chunk_ok completion_choice_ok) two_choice_chunks"
  by (simp_all add: example_chunks_defs dict_get_def)

lemma null_choice_chunks_not_ok:
  "\<not> list_all (chunk_ok chat_choice_ok) null_choice_chunks"
  "\<not> list_all (chunk_ok completion_choice_ok) null_choice_chunks"
  by (simp_all add: null_choice_chunks_def dict_get_def)

theorem aggregate_chunks_single_choice_witness:
  "list_all (chunk_ok chat_choice_ok) two_choice_chunks
   \<and> (\<exists>i c m u fr.
         aggregate_chat_chunks 0 0 example_repr two_choice_chunks ''deepseek-chat'' =
           Inr (JDict
             [(''id'', i), (''object'', JStr ''chat.completion''), (''created'', c),
              (''model'', m),
              (''choices'', JList
                 [JDict [(''index'', JInt 0),
                         (''message'', JDict [(''role'', JStr ''assistant''),
                                              (''content'', JStr ''abcd''),
                                              (''reasoning_content'', JStr ''xy'')]),
                         (''finish_reason'', fr)]]),
              (''usage'', u)]))
   \<and> list_all (chunk_ok completion_choice_ok) two_choice_chunks
   \<and> (\<exists>i c m u fr.
         aggregate_completion_chunks 0 0 example_repr two_choice_chunks ''deepseek-chat'' =
           Inr (JDict
             [(''id'', i), (''object'', JStr ''text_completion''), (''created'', c),
              (''model'', m),
              (''choices'', JList
                 [JDict [(''index'', JInt 0), (''text'', JStr ''abcd''), (''finish_reason'', fr)]]),
              (''usage'', u)]))
   \<and> \<not> list_all (chunk_ok chat_choice_ok) null_choice_chunks
   \<and> (\<exists>e. aggregate_chat_chunks 0 0 example_repr null_choice_chunks ''deepseek-chat'' = Inl e)
   \<and> \<not> list_all (chunk_ok completion_choice_ok) null_choice_chunks
   \<and> (\<exists>e. aggregate_completion_chunks 0 0 example_repr null_choice_chunks ''deepseek-chat''
            = Inl e)"
proof -
  have f1: "concat (map (\<lambda>chunk.
                     concat (map (\<lambda>choice. fragment (field ''content'' (field ''delta'' choice)))
                               (choices_of chunk))) two_choice_chunks) = [''a'', ''b'', ''c'', ''d'']"
    by (simp add: two_choice_chunks_def dict_get_def)
  have f2: "concat (map (\<lambda>chunk.
                             concat (map (\<lambda>choice. fragment (field ''text'' choice))
                                       (choices_of chunk))) two_choice_chunks)
              = [''a'', ''b'', ''c'', ''d'']"
    by (simp add: two_choice_chunks_def dict_get_def)
  have f3: "concat (map (\<lambda>chunk.
                     concat (map (\<lambda>choice.
                        fragment (field ''reasoning_content'' (field ''delta'' choice)))
                               (choices_of chunk))) two_choice_chunks) = [''x'', ''y'']"
    by (simp add: two_choice_chunks_def dict_get_def)
  note t = aggregate_chunks_single_choice [of two_choice_chunks 0 0 example_repr "''deepseek-chat''"]
  note n = aggregate_chunks_single_choice [of null_choice_chunks 0 0 example_repr "''deepseek-chat''"]
  from t two_choice_chunks_ok(1)
  have a: "\<exists>i c m u fr.
         aggregate_chat_chunks 0 0 example_repr two_choice_chunks ''deepseek-chat'' =
           Inr (JDict
             [(''id'', i), (''object'', JStr ''chat.completion''), (''created'', c),
              (''model'', m),
              (''choices'', JList
                 [JDict [(''index'', JInt 0),
                         (''message'', JDict [(''role'', JStr ''assistant''),
                                              (''content'', JStr ''abcd''),
                                              (''reasoning_content'', JStr ''xy'')]),
                         (''finish_reason'', fr)]]),
              (''usage'', u)])"
    unfolding f1 f3 by simp
  from t two_choice_chunks_ok(2)
  have b: "\<exists>i c m u fr.
         aggregate_completion_chunks 0 0 example_repr two_choice_chunks ''deepseek-chat'' =
           Inr (JDict
             [(''id'', i), (''object'', JStr ''text_completion''), (''created'', c),
              (''model'', m),
              (''choices'', JList
                 [JDict [(''index'', JInt 0), (''text'', JStr ''abcd''), (''finish_reason'', fr)]]),
              (''usage'', u)])"
    unfolding f2 by simp
  from n null_choice_chunks_not_ok
  have c: "\<exists>e. aggregate_chat_chunks 0 0 example_repr null_choice_chunks ''deepseek-chat'' = Inl e"
    and d: "\<exists>e. aggregate_completion_chunks 0 0 example_repr null_choice_chunks ''deepseek-chat''
               = Inl e"
    by blast+
  from a b c d two_choice_chunks_ok null_choice_chunks_not_ok show ?thesis
    by blast
qed

text \<open>
  The claim as stated, for every chunk list, fails on a list that is not of the stream's
  shape. The chunk of \<open>null_choice_chunks\<close> has \<^verbatim>\<open>null\<close> as its only choice (the event
  line \<^verbatim>\<open>data: {"id": "abc", "choices": [null]}\<close> decodes to it): both aggregators raise
  \<^verbatim>\<open>AttributeError\<close> at \<^verbatim>\<open>choice.get\<close> and return no response at all.
\<close>

theorem single_choice_every_list_counterexample:
  "aggregate_chat_chunks 0 0 example_repr null_choice_chunks ''deepseek-chat''
     = Inl (AttributeError (quoted ''NoneType'' @ '' object has no attribute '' @ quoted ''get''))
   \<and> aggregate_completion_chunks 0 0 example_repr null_choice_chunks ''deepseek-chat''
     = Inl (AttributeError (quoted ''NoneType'' @ '' object has no attribute '' @ quoted ''get''))"
  by (simp add: aggregate_chat_chunks_def aggregate_completion_chunks_def null_choice_chunks_def
        chat_chunk_body_def completion_chunk_body_def chunk_choices_def chat_choice_body_def
        completion_choice_body_def dict_get_def dict_get_default_def py_or_def no_attribute_def
        Let_def)

section \<open>The client: what a call sends and what it writes\<close>

lemma request_json_world:
  "snd (request_json ev cfg m path body ov w) =
     w\<lparr>sent := sent w @ [\<lparr>req_method = m, req_url = request_url cfg ov path,
                            req_accept = ''application/json'', req_body = body\<rparr>]\<rparr>"
  by (simp add: request_json_def send_def split: reply.splits sum.splits)

lemma request_sse_json_world:
  "snd (request_sse_json ev cfg m path body ov w) =
     w\<lparr>sent := sent w @ [\<lparr>req_method = m, req_url = request_url cfg ov path,
                            req_accept = ''text/event-stream'', req_body = body\<rparr>]\<rparr>"
  by (simp add: request_sse_json_def send_def split: reply.splits)

lemma chat_or_completion_request_world:
  "snd (chat_or_completion_request ev cfg path p ov w) =
     w\<lparr>sent := sent w @
        [\<lparr>req_method = ''POST'', req_url = request_url cfg ov path,
          req_accept = (if truthy (dict_get (heap w ! p) ''stream'')
                        then ''text/event-stream'' else ''application/json''),
          req_body = heap w ! p\<rparr>]\<rparr>"
proof (cases "truthy (dict_get (heap w ! p) ''stream'')")
  case True
  obtain r w' where r: "request_sse_json ev cfg ''POST'' path (heap w ! p) ov w = (r, w')"
    by (cases "request_sse_json ev cfg ''POST'' path (heap w ! p) ov w")
  then have "w' = snd (request_sse_json ev cfg ''POST'' path (heap w ! p) ov w)" by simp
  then have w': "w' = w\<lparr>sent := sent w @
        [\<lparr>req_method = ''POST'', req_url = request_url cfg ov path,
          req_accept = ''text/event-stream'', req_body = heap w ! p\<rparr>]\<rparr>"
    by (simp only: request_sse_json_world)
  show ?thesis
    using True r w'
    by (simp add: chat_or_completion_request_def Let_def split: sum.splits)
next
  case False
  obtain r w' where r: "request_json ev cfg ''POST'' path (heap w ! p) ov w = (r, w')"
    by (cases "request_json ev cfg ''POST'' path (heap w ! p) ov w")
  then have "w' = snd (request_json ev cfg ''POST'' path (heap w ! p) ov w)" by simp
  then have w': "w' = w\<lparr>sent := sent w @
        [\<lparr>req_method = ''POST'', req_url = request_url cfg ov path,
          req_accept = ''application/json'', req_body = heap w ! p\<rparr>]\<rparr>"
    by (simp only: request_json_world)
  show ?thesis
    using False r w'
    by (simp add: chat_or_completion_request_def Let_def split: sum.splits)
qed

lemma chat_or_completion_request_heap:
  "chat_or_completion_request ev cfg path p ov w = (r, w') \<Longrightarrow> heap w' = heap w"
  using chat_or_completion_request_world [of ev cfg path p ov w] by simp

lemma chat_or_completion_request_sent:
  "chat_or_completion_request ev cfg path p ov w = (r, w') \<Longrightarrow>
     sent w' = sent w @
        [\<lparr>req_method = ''POST'', req_url = request_url cfg ov path,
          req_accept = (if truthy (dict_get (heap w ! p) ''stream'')
                        then ''text/event-stream'' else ''application/json''),
          req_body = heap w ! p\<rparr>]"
  using chat_or_completion_request_world [of ev cfg path p ov w] by simp

lemma dict_copy_fresh:
  "dict_copy p w = (q, w1) \<Longrightarrow>
     q = length (heap w) \<and> heap w1 = heap w @ [heap w ! p] \<and> sent w1 = sent w"
  by (auto simp: dict_copy_def dict_new_def)

lemma dict_setitem_last:
  "heap w1 = hp @ [d] \<Longrightarrow>
     heap (dict_setitem (length hp) k v w1) = hp @ [AList.update k v d]
     \<and> sent (dict_setitem (length hp) k v w1) = sent w1"
  by (simp add: dict_setitem_def)

lemma chat_payload_result:
  assumes "chat_payload ev cfg payload w = (model, q, w2)"
  shows "model = py_str (repr ev)
                   (py_or (dict_get (heap w ! payload) ''model'') (JStr (default_model cfg)))"
    and "q = length (heap w)"
    and "heap w2 = heap w @ [AList.update ''model'' (JStr model) (heap w ! payload)]"
    and "sent w2 = sent w"
  using assms
  by (auto simp: chat_payload_def dict_copy_def dict_new_def dict_setitem_def Let_def)

lemma completion_payload_result:
  assumes "completion_payload ev cfg payload w = (q, w2)"
  shows "q = length (heap w)"
    and "heap w2 = heap w @
           [AList.update ''model''
              (JStr (py_str (repr ev)
                 (py_or (dict_get (heap w ! payload) ''model'') (JStr (default_model cfg)))))
              (heap w ! payload)]"
    and "sent w2 = sent w"
  using assms
  by (auto simp: completion_payload_def dict_copy_def dict_new_def dict_setitem_def Let_def)


lemma should_reasoner_fallback_iff:
  "should_reasoner_fallback cfg model error \<longleftrightarrow>
     enable_reasoner_fallback cfg \<and> model = ''deepseek-reasoner''
     \<and> fallback_model cfg \<noteq> model
     \<and> (err_status error = None
        \<or> (\<exists>s. err_status error = Some s \<and> s \<in> {408, 409, 429, 500, 502, 503, 504}))"
  by (auto simp: should_reasoner_fallback_def RETRIABLE_STATUS_CODES_def
        split: option.splits)

lemma dict_get_update_other:
  "k' \<noteq> k \<Longrightarrow> dict_get (AList.update k v d) k' = dict_get d k'"
  by (simp add: dict_get_def update_conv')

lemma create_chat_completion_no_retry:
  assumes p: "chat_payload ev cfg payload w = (model, q, w2)"
    and f: "chat_or_completion_request ev cfg ''/chat/completions'' q None w2 = (first, w3)"
    and n: "\<And>e. first = Inl (ApiError e) \<Longrightarrow> \<not> should_reasoner_fallback cfg model e"
  shows "snd (create_chat_completion ev cfg payload w) = w3"
proof (cases first)
  case (Inr x)
  with p f show ?thesis
    by (cases x) (simp add: create_chat_completion_def)
next
  case (Inl e)
  show ?thesis
  proof (cases e)
    case (ApiError err)
    with Inl n have "\<not> should_reasoner_fallback cfg model err" by simp
    with p f Inl ApiError show ?thesis
      by (simp add: create_chat_completion_def)
  qed (use p f Inl in \<open>simp_all add: create_chat_completion_def\<close>)
qed

lemma create_chat_completion_retry:
  assumes p: "chat_payload ev cfg payload w = (model, q, w2)"
    and f: "chat_or_completion_request ev cfg ''/chat/completions'' q None w2
              = (Inl (ApiError e), w3)"
    and s: "should_reasoner_fallback cfg model e"
    and c: "dict_copy q w3 = (fp, w4)"
    and r: "chat_or_completion_request ev cfg ''/chat/completions'' fp None
              (dict_setitem fp ''model'' (JStr (fallback_model cfg)) w4) = (second, w6)"
  shows "create_chat_completion ev cfg payload w =
           (case second of
              Inl e2 \<Rightarrow> Inl e2
            | Inr (response, stream_chunk_count) \<Rightarrow>
                Inr (JDict
                  [(''response'', response),
                   (''fallback'', JDict
                      [(''from_model'', JStr model),
                       (''to_model'', JStr (fallback_model cfg)),
                       (''reason'', JStr (err_message e))]),
                   (''stream_chunk_count'', stream_chunk_count)]), w6)"
  using p f s c r
  by (simp add: create_chat_completion_def split: sum.splits prod.splits)

lemma create_chat_completion_world:
  assumes p: "chat_payload ev cfg payload w = (model, q, w2)"
    and f: "chat_or_completion_request ev cfg ''/chat/completions'' q None w2 = (first, w3)"
  defines "body \<equiv> AList.update ''model'' (JStr model) (heap w ! payload)"
  defines "rq \<equiv> \<lparr>req_method = ''POST'',
                  req_url = normalize_base_url (base_url cfg) @ ''/chat/completions'',
                  req_accept = (if truthy (dict_get body ''stream'')
                                then ''text/event-stream'' else ''application/json''),
                  req_body = body\<rparr>"
  defines "retry \<equiv> (\<exists>e. first = Inl (ApiError e) \<and> should_reasoner_fallback cfg model e)"
  shows "sent (snd (create_chat_completion ev cfg payload w)) =
           sent w @
           (if retry
            then [rq, rq\<lparr>req_body := AList.update ''model'' (JStr (fallback_model cfg)) body\<rparr>]
            else [rq])
         \<and> heap (snd (create_chat_completion ev cfg payload w)) =
           heap w @
           (if retry then [body, AList.update ''model'' (JStr (fallback_model cfg)) body]
            else [body])"
proof -
  note pr = chat_payload_result [OF p]
  from pr have q: "heap w2 ! q = body" and h2: "heap w2 = heap w @ [body]"
    by (simp_all add: body_def)
  have h3: "heap w3 = heap w @ [body]"
    using chat_or_completion_request_heap [OF f] h2 by simp
  have s3: "sent w3 = sent w @ [rq]"
    using chat_or_completion_request_sent [OF f] q pr(4) by (simp add: request_url_def rq_def)
  show ?thesis
  proof (cases retry)
    case False
    then have "snd (create_chat_completion ev cfg payload w) = w3"
      using create_chat_completion_no_retry [OF p f] unfolding retry_def by blast
    with False s3 h3 show ?thesis
      by simp
  next
    case True
    then obtain e where e: "first = Inl (ApiError e)" and s: "should_reasoner_fallback cfg model e"
      unfolding retry_def by blast
    obtain fp w4 where c: "dict_copy q w3 = (fp, w4)"
      by (cases "dict_copy q w3")
    define w5 where "w5 = dict_setitem fp ''model'' (JStr (fallback_model cfg)) w4"
    obtain second w6 where
      r: "chat_or_completion_request ev cfg ''/chat/completions'' fp None w5 = (second, w6)"
      by (cases "chat_or_completion_request ev cfg ''/chat/completions'' fp None w5")
    from dict_copy_fresh [OF c] h3 pr(2)
    have fp: "fp = length (heap w @ [body])" and h4: "heap w4 = (heap w @ [body]) @ [body]"
      and s4: "sent w4 = sent w3"
      by simp_all
    from dict_setitem_last [OF h4, of "''model''" "JStr (fallback_model cfg)"]
    have h5: "heap w5 = (heap w @ [body]) @ [AList.update ''model'' (JStr (fallback_model cfg)) body]"
      and s5: "sent w5 = sent w3"
      unfolding w5_def fp using s4 by simp_all
    have b5: "heap w5 ! fp = AList.update ''model'' (JStr (fallback_model cfg)) body"
      unfolding h5 fp by (simp only: nth_append_length)
    have w6: "snd (create_chat_completion ev cfg payload w) = w6"
      using create_chat_completion_retry [OF p f [unfolded e] s c r [unfolded w5_def]] by simp
    have "heap w6 = heap w5"
      by (rule chat_or_completion_request_heap [OF r])
    moreover have "sent w6 = sent w5 @
      [rq\<lparr>req_body := AList.update ''model'' (JStr (fallback_model cfg)) body\<rparr>]"
      using chat_or_completion_request_sent [OF r] b5
      by (simp add: request_url_def dict_get_update_other rq_def)
    ultimately show ?thesis
      using True w6 h5 s5 s3 by simp
  qed
qed

lemmas client_defs = create_chat_completion_def create_completion_def chat_payload_def
  completion_payload_def chat_or_completion_request_def request_json_def request_sse_json_def
  send_def request_url_def dict_copy_def dict_new_def dict_setitem_def make_api_error_def
  make_api_error_from_text_def or_status_message_def status_message_def
  extract_error_message_def top_level_message_def

lemmas example_client_defs = example_env_def example_config_def caller_world_def
  chat_payload_for_def prompt_payload_def fails_once_def always_fails_def unreachable_def
  invalid_url_def invalid_url_message_def beta_host_config_def example_response_def quoted_def
  example_loads_def detail_body_def ok_body_def example_repr_def example_clock_def

lemmas client_eval = client_defs example_client_defs dict_get_def py_or_def Let_def
  normalize_base_url_def

lemma contains_sublist: "contains s t \<longleftrightarrow> sublist t s"
proof (induction s)
  case Nil
  show ?case by simp
next
  case (Cons c cs)
  have "startswith (c # cs) t \<longleftrightarrow> prefix t (c # cs)"
    by (metis startswith_def append_eq_conv_conj prefix_def)
  with Cons show ?case
    by (simp add: sublist_Cons_right)
qed

lemma build_beta_nonempty: "build_beta_base_url u \<noteq> []"
  using build_beta_ends [of u] endswith_beta_last by blast

lemma request_url_beta:
  "request_url cfg (Some (build_beta_base_url u)) path = build_beta_base_url u @ path"
  by (simp add: request_url_def build_beta_nonempty normalize_beta build_beta_ends)

lemma contains_beta_retry:
  "contains (lower (err_message error)) ''beta'' \<Longrightarrow> should_retry_completion_on_beta error"
  by (simp add: should_retry_completion_on_beta_def Let_def)

lemma create_completion_no_retry:
  assumes p: "completion_payload ev cfg payload w = (q, w2)"
    and f: "chat_or_completion_request ev cfg ''/completions'' q None w2 = (first, w3)"
    and n: "\<And>e. first = Inl (ApiError e) \<Longrightarrow> \<not> should_retry_completion_on_beta e"
  shows "snd (create_completion ev cfg payload w) = w3"
proof (cases first)
  case (Inr x)
  with p f show ?thesis
    by (cases x) (simp add: create_completion_def)
next
  case (Inl e)
  show ?thesis
  proof (cases e)
    case (ApiError err)
    with Inl n have "\<not> should_retry_completion_on_beta err" by simp
    with p f Inl ApiError show ?thesis
      by (simp add: create_completion_def)
  qed (use p f Inl in \<open>simp_all add: create_completion_def\<close>)
qed

lemma create_completion_retry:
  assumes p: "completion_payload ev cfg payload w = (q, w2)"
    and f: "chat_or_completion_request ev cfg ''/completions'' q None w2
              = (Inl (ApiError e), w3)"
    and s: "should_retry_completion_on_beta e"
    and r: "chat_or_completion_request ev cfg ''/completions'' q
              (Some (build_beta_base_url (base_url cfg))) w3 = (second, w4)"
  shows "create_completion ev cfg payload w =
           (case second of
              Inl e2 \<Rightarrow> Inl e2
            | Inr (response, stream_chunk_count) \<Rightarrow>
                Inr (JDict
                  [(''response'', response),
                   (''used_beta_base'', JBool True),
                   (''stream_chunk_count'', stream_chunk_count)]), w4)"
  using p f s r
  by (simp add: create_completion_def split: sum.splits prod.splits)

lemma create_completion_world:
  assumes p: "completion_payload ev cfg payload w = (q, w2)"
    and f: "chat_or_completion_request ev cfg ''/completions'' q None w2 = (first, w3)"
  defines "body \<equiv> heap w2 ! q"
  defines "rq \<equiv> \<lparr>req_method = ''POST'',
                  req_url = normalize_base_url (base_url cfg) @ ''/completions'',
                  req_accept = (if truthy (dict_get body ''stream'')
                                then ''text/event-stream'' else ''application/json''),
                  req_body = body\<rparr>"
  defines "retry \<equiv> (\<exists>e. first = Inl (ApiError e) \<and> should_retry_completion_on_beta e)"
  shows "sent (snd (create_completion ev cfg payload w)) =
           sent w @
           (if retry
            then [rq, rq\<lparr>req_url := build_beta_base_url (base_url cfg) @ ''/completions''\<rparr>]
            else [rq])
         \<and> heap (snd (create_completion ev cfg payload w)) = heap w @ [body]"
proof -
  note pr = completion_payload_result [OF p]
  from pr have h2: "heap w2 = heap w @ [body]"
    by (simp add: body_def)
  have h3: "heap w3 = heap w @ [body]"
    using chat_or_completion_request_heap [OF f] h2 by simp
  have s3: "sent w3 = sent w @ [rq]"
    using chat_or_completion_request_sent [OF f] pr(3)
    by (simp add: request_url_def rq_def body_def)
  show ?thesis
  proof (cases retry)
    case False
    then have "snd (create_completion ev cfg payload w) = w3"
      using create_completion_no_retry [OF p f] unfolding retry_def by blast
    with False s3 h3 show ?thesis
      by simp
  next
    case True
    then obtain e where e: "first = Inl (ApiError e)" and s: "should_retry_completion_on_beta e"
      unfolding retry_def by blast
    obtain second w4 where
      r: "chat_or_completion_request ev cfg ''/completions'' q
            (Some (build_beta_base_url (base_url cfg))) w3 = (second, w4)"
      by (cases "chat_or_completion_request ev cfg ''/completions'' q
            (Some (build_beta_base_url (base_url cfg))) w3")
    have b3: "heap w3 ! q = body"
      using chat_or_completion_request_heap [OF f] by (simp add: body_def)
    have w4: "snd (create_completion ev cfg payload w) = w4"
      using create_completion_retry [OF p f [unfolded e] s r] by simp
    have "heap w4 = heap w3"
      by (rule chat_or_completion_request_heap [OF r])
    moreover have "sent w4 = sent w3 @
      [rq\<lparr>req_url := build_beta_base_url (base_url cfg) @ ''/completions''\<rparr>]"
      using chat_or_completion_request_sent [OF r] b3
      by (simp add: request_url_beta rq_def)
    ultimately show ?thesis
      using True w4 h3 s3 by simp
  qed
qed

section \<open>The client: the claims\<close>

text \<open>
  What decides the retry in \<open>create_chat_completion\<close>. Let \<open>model\<close> be the requested
  model (the payload's model, or the default model) and \<open>first\<close> the outcome of the first
  request. A second request, the first one with \<^verbatim>\<open>model\<close> replaced by the fallback model,
  is sent if and only if the first attempt raised a \<^verbatim>\<open>DeepSeekApiError\<close> and the fallback
  flag is enabled, the requested model is \<^verbatim>\<open>deepseek-reasoner\<close>, the fallback model
  differs from it, and the error has no status or a status among 408, 409, 429, 500, 502,
  503, 504; in every other case the call sends the first request only.
\<close>

theorem reasoner_fallback_iff:
  assumes p: "chat_payload ev cfg payload w = (model, q, w2)"
    and f: "chat_or_completion_request ev cfg ''/chat/completions'' q None w2 = (first, w3)"
  shows
  "((\<exists>rq. sent (snd (create_chat_completion ev cfg payload w)) =
            sent w @ [rq, rq\<lparr>req_body := AList.update ''model'' (JStr (fallback_model cfg))
                                             (req_body rq)\<rparr>])
    \<longleftrightarrow> (\<exists>error. first = Inl (ApiError error)
           \<and> enable_reasoner_fallback cfg
           \<and> model = ''deepseek-reasoner''
           \<and> fallback_model cfg \<noteq> model
           \<and> (err_status error = None
              \<or> (\<exists>s. err_status error = Some s \<and> s \<in> {408, 409, 429, 500, 502, 503, 504}))))
   \<and> ((\<exists>rq. sent (snd (create_chat_completion ev cfg payload w)) = sent w @ [rq])
    \<longleftrightarrow> \<not> (\<exists>error. first = Inl (ApiError error)
           \<and> enable_reasoner_fallback cfg
           \<and> model = ''deepseek-reasoner''
           \<and> fallback_model cfg \<noteq> model
           \<and> (err_status error = None
              \<or> (\<exists>s. err_status error = Some s \<and> s \<in> {408, 409, 429, 500, 502, 503, 504}))))"
proof -
  define retry where
    "retry \<longleftrightarrow> (\<exists>e. first = Inl (ApiError e) \<and> should_reasoner_fallback cfg model e)"
  have r: "retry \<longleftrightarrow> (\<exists>error. first = Inl (ApiError error)
           \<and> enable_reasoner_fallback cfg
           \<and> model = ''deepseek-reasoner''
           \<and> fallback_model cfg \<noteq> model
           \<and> (err_status error = None
              \<or> (\<exists>s. err_status error = Some s \<and> s \<in> {408, 409, 429, 500, 502, 503, 504})))"
    unfolding retry_def should_reasoner_fallback_iff by blast
  define rq where "rq =
    \<lparr>req_method = ''POST'',
     req_url = normalize_base_url (base_url cfg) @ ''/chat/completions'',
     req_accept = (if truthy (dict_get (AList.update ''model'' (JStr model) (heap w ! payload))
                                ''stream'')
                   then ''text/event-stream'' else ''application/json''),
     req_body = AList.update ''model'' (JStr model) (heap w ! payload)\<rparr>"
  have s: "sent (snd (create_chat_completion ev cfg payload w)) =
      sent w @ (if retry
                then [rq, rq\<lparr>req_body := AList.update ''model'' (JStr (fallback_model cfg))
                                                (req_body rq)\<rparr>]
                else [rq])"
    using create_chat_completion_world [OF p f]
    by (simp add: retry_def rq_def)
  have "(\<exists>rq. sent (snd (create_chat_completion ev cfg payload w)) =
            sent w @ [rq, rq\<lparr>req_body := AList.update ''model'' (JStr (fallback_model cfg))
                                             (req_body rq)\<rparr>]) \<longleftrightarrow> retry"
    using s by (cases retry) auto
  moreover have "(\<exists>rq. sent (snd (create_chat_completion ev cfg payload w)) = sent w @ [rq])
      \<longleftrightarrow> \<not> retry"
    using s by (cases retry) auto
  ultimately show ?thesis
    unfolding r by blast
qed

theorem reasoner_fallback_iff_witness:
  "chat_payload (example_env (fails_once 429 ''rate limited'')) example_config 0
       (caller_world (chat_payload_for ''deepseek-reasoner''))
     = (''deepseek-reasoner'', 1,
        \<lparr>heap = [chat_payload_for ''deepseek-reasoner'', chat_payload_for ''deepseek-reasoner''],
         sent = []\<rparr>)
   \<and> fst (chat_or_completion_request (example_env (fails_once 429 ''rate limited''))
            example_config ''/chat/completions'' 1 None
            \<lparr>heap = [chat_payload_for ''deepseek-reasoner'',
                     chat_payload_for ''deepseek-reasoner''], sent = []\<rparr>)
     = Inl (ApiError \<lparr>err_message = ''rate limited'', err_status = Some 429,
                       err_payload = JNull\<rparr>)
   \<and> (\<exists>rq. sent (snd (create_chat_completion (example_env (fails_once 429 ''rate limited''))
                         example_config 0 (caller_world (chat_payload_for ''deepseek-reasoner''))))
            = sent (caller_world (chat_payload_for ''deepseek-reasoner''))
              @ [rq, rq\<lparr>req_body := AList.update ''model'' (JStr ''deepseek-chat'')
                                          (req_body rq)\<rparr>])
   \<and> chat_payload (example_env (fails_once 429 ''rate limited'')) example_config 0
       (caller_world (chat_payload_for ''deepseek-coder''))
     = (''deepseek-coder'', 1,
        \<lparr>heap = [chat_payload_for ''deepseek-coder'', chat_payload_for ''deepseek-coder''],
         sent = []\<rparr>)
   \<and> (\<exists>rq. sent (snd (create_chat_completion (example_env (fails_once 429 ''rate limited''))
                         example_config 0 (caller_world (chat_payload_for ''deepseek-coder''))))
            = sent (caller_world (chat_payload_for ''deepseek-coder'')) @ [rq])"
proof -
  let ?ev = "example_env (fails_once 429 ''rate limited'')"
  let ?e = "\<lparr>err_message = ''rate limited'', err_status = Some 429, err_payload = JNull\<rparr>"
  have p1: "chat_payload ?ev example_config 0 (caller_world (chat_payload_for ''deepseek-reasoner''))
     = (''deepseek-reasoner'', 1,
        \<lparr>heap = [chat_payload_for ''deepseek-reasoner'', chat_payload_for ''deepseek-reasoner''],
         sent = []\<rparr>)"
    by (simp add: client_eval)
  obtain w3 where f1: "chat_or_completion_request ?ev example_config ''/chat/completions'' 1 None
            \<lparr>heap = [chat_payload_for ''deepseek-reasoner'',
                     chat_payload_for ''deepseek-reasoner''], sent = []\<rparr>
     = (Inl (ApiError ?e), w3)"
    by (simp add: client_eval str_int_def nat_digits.simps)
  have c1: "fallback_model example_config = ''deepseek-chat''"
    "enable_reasoner_fallback example_config"
    by (simp_all add: example_config_def)
  have "\<exists>rq. sent (snd (create_chat_completion ?ev example_config 0
                         (caller_world (chat_payload_for ''deepseek-reasoner''))))
            = sent (caller_world (chat_payload_for ''deepseek-reasoner''))
              @ [rq, rq\<lparr>req_body := AList.update ''model'' (JStr ''deepseek-chat'')
                                          (req_body rq)\<rparr>]"
    using reasoner_fallback_iff [OF p1 f1] c1 by simp
  moreover
  have p2: "chat_payload ?ev example_config 0 (caller_world (chat_payload_for ''deepseek-coder''))
     = (''deepseek-coder'', 1,
        \<lparr>heap = [chat_payload_for ''deepseek-coder'', chat_payload_for ''deepseek-coder''],
         sent = []\<rparr>)"
    by (simp add: client_eval)
  obtain first w3' where f2: "chat_or_completion_request ?ev example_config ''/chat/completions'' 1 None
            \<lparr>heap = [chat_payload_for ''deepseek-coder'',
                     chat_payload_for ''deepseek-coder''], sent = []\<rparr>
     = (first, w3')"
    by (cases "chat_or_completion_request ?ev example_config ''/chat/completions'' 1 None
            \<lparr>heap = [chat_payload_for ''deepseek-coder'',
                     chat_payload_for ''deepseek-coder''], sent = []\<rparr>")
  have "\<exists>rq. sent (snd (create_chat_completion ?ev example_config 0
                         (caller_world (chat_payload_for ''deepseek-coder''))))
            = sent (caller_world (chat_payload_for ''deepseek-coder'')) @ [rq]"
    using reasoner_fallback_iff [OF p2 f2] by simp
  ultimately show ?thesis
    using p1 p2 f1 by simp
qed

text \<open>
  Claim C3, as amended. When the first attempt of a plain completion call raises a
  \<^verbatim>\<open>DeepSeekApiError\<close> whose lower-cased message contains \<^verbatim>\<open>beta\<close>, the call sends
  exactly one more request: the same request against the beta base path. The outcome of
  that retry is the outcome of the call: its exception propagates and nothing further is
  sent, and its response is returned with \<^verbatim>\<open>used_beta_base\<close> true. When the first
  attempt raises an exception of another class (of the transport, of the interpreter),
  that exception propagates after the one request, whatever its message.
\<close>

theorem beta_retry_once:
  assumes p: "completion_payload ev cfg payload w = (q, w2)"
    and f: "chat_or_completion_request ev cfg ''/completions'' q None w2 = (first, w3)"
    and r: "chat_or_completion_request ev cfg ''/completions'' q
              (Some (build_beta_base_url (base_url cfg))) w3 = (second, w4)"
  shows
  "(\<forall>error. first = Inl (ApiError error) \<and> contains (lower (err_message error)) ''beta'' \<longrightarrow>
      create_completion ev cfg payload w =
        (case second of
           Inl e2 \<Rightarrow> Inl e2
         | Inr (response, stream_chunk_count) \<Rightarrow>
             Inr (JDict [(''response'', response),
                         (''used_beta_base'', JBool True),
                         (''stream_chunk_count'', stream_chunk_count)]), w4)
      \<and> (\<exists>rq. req_url rq = normalize_base_url (base_url cfg) @ ''/completions''
              \<and> sent w4 = sent w @
                    [rq, rq\<lparr>req_url := build_beta_base_url (base_url cfg) @ ''/completions''\<rparr>]))
   \<and> (\<forall>e. first = Inl e \<and> (\<forall>error. e \<noteq> ApiError error) \<longrightarrow>
      create_completion ev cfg payload w = (Inl e, w3)
      \<and> (\<exists>rq. req_url rq = normalize_base_url (base_url cfg) @ ''/completions''
              \<and> sent w3 = sent w @ [rq]))"
proof -
  have api: "create_completion ev cfg payload w =
        (case second of
           Inl e2 \<Rightarrow> Inl e2
         | Inr (response, stream_chunk_count) \<Rightarrow>
             Inr (JDict [(''response'', response),
                         (''used_beta_base'', JBool True),
                         (''stream_chunk_count'', stream_chunk_count)]), w4)
      \<and> (\<exists>rq. req_url rq = normalize_base_url (base_url cfg) @ ''/completions''
              \<and> sent w4 = sent w @
                    [rq, rq\<lparr>req_url := build_beta_base_url (base_url cfg) @ ''/completions''\<rparr>])"
    if a: "first = Inl (ApiError error) \<and> contains (lower (err_message error)) ''beta''"
    for error
  proof -
  from a have s: "should_retry_completion_on_beta error"
    by (simp add: contains_beta_retry)
  from a f have f': "chat_or_completion_request ev cfg ''/completions'' q None w2
                       = (Inl (ApiError error), w3)"
    by simp
  have c: "create_completion ev cfg payload w =
     (case second of
        Inl e2 \<Rightarrow> Inl e2
      | Inr (response, stream_chunk_count) \<Rightarrow>
          Inr (JDict [(''response'', response),
                      (''used_beta_base'', JBool True),
                      (''stream_chunk_count'', stream_chunk_count)]), w4)"
    by (rule create_completion_retry [OF p f' s r])
  then have w4: "snd (create_completion ev cfg payload w) = w4"
    by simp
  define rq where "rq =
    \<lparr>req_method = ''POST'',
     req_url = normalize_base_url (base_url cfg) @ ''/completions'',
     req_accept = (if truthy (dict_get (heap w2 ! q) ''stream'')
                   then ''text/event-stream'' else ''application/json''),
     req_body = heap w2 ! q\<rparr>"
  have "sent w4 = sent w @
          [rq, rq\<lparr>req_url := build_beta_base_url (base_url cfg) @ ''/completions''\<rparr>]"
    using create_completion_world [OF p f'] s unfolding w4
    by (simp add: rq_def)
  moreover have "req_url rq = normalize_base_url (base_url cfg) @ ''/completions''"
    by (simp add: rq_def)
  ultimately show ?thesis
    using c by blast
  qed
  have other: "create_completion ev cfg payload w = (Inl e, w3)
      \<and> (\<exists>rq. req_url rq = normalize_base_url (base_url cfg) @ ''/completions''
              \<and> sent w3 = sent w @ [rq])"
    if a: "first = Inl e \<and> (\<forall>error. e \<noteq> ApiError error)"
    for e
  proof -
  from a p f have c: "create_completion ev cfg payload w = (Inl e, w3)"
    by (cases e) (simp_all add: create_completion_def)
  define rq where "rq =
    \<lparr>req_method = ''POST'',
     req_url = normalize_base_url (base_url cfg) @ ''/completions'',
     req_accept = (if truthy (dict_get (heap w2 ! q) ''stream'')
                   then ''text/event-stream'' else ''application/json''),
     req_body = heap w2 ! q\<rparr>"
  have "sent w3 = sent w @ [rq]"
    using chat_or_completion_request_sent [OF f] completion_payload_result(3) [OF p]
    by (simp add: rq_def request_url_def)
  moreover have "req_url rq = normalize_base_url (base_url cfg) @ ''/completions''"
    by (simp add: rq_def)
  ultimately show ?thesis
    using c by blast
  qed
  from api other show ?thesis
    by blast
qed

lemma lower_beta_message: "lower ''Please use the BETA base url'' = ''please use the beta base url''"
  by code_simp

lemma invalid_url_message_beta: "contains (lower invalid_url_message) ''beta''"
  by code_simp

theorem beta_retry_once_witness:
  "contains (lower ''Please use the BETA base url'') ''beta''
   \<and> create_completion (example_env (fails_once 400 ''Please use the BETA base url''))
        example_config 0 (caller_world prompt_payload)
     = (Inr (JDict [(''response'', JDict [(''id'', JStr ''r1'')]),
                    (''used_beta_base'', JBool True),
                    (''stream_chunk_count'', JNull)]),
        \<lparr>heap = [prompt_payload, prompt_payload @ [(''model'', JStr ''deepseek-chat'')]],
         sent = [\<lparr>req_method = ''POST'', req_url = ''https://api.deepseek.com/completions'',
                   req_accept = ''application/json'',
                   req_body = prompt_payload @ [(''model'', JStr ''deepseek-chat'')]\<rparr>,
                 \<lparr>req_method = ''POST'', req_url = ''https://api.deepseek.com/beta/completions'',
                   req_accept = ''application/json'',
                   req_body = prompt_payload @ [(''model'', JStr ''deepseek-chat'')]\<rparr>]\<rparr>)
   \<and> create_completion (example_env (always_fails 400 ''Please use the BETA base url''))
        example_config 0 (caller_world prompt_payload)
     = (Inl (ApiError \<lparr>err_message = ''Please use the BETA base url'', err_status = Some 400,
                        err_payload = JNull\<rparr>),
        \<lparr>heap = [prompt_payload, prompt_payload @ [(''model'', JStr ''deepseek-chat'')]],
         sent = [\<lparr>req_method = ''POST'', req_url = ''https://api.deepseek.com/completions'',
                   req_accept = ''application/json'',
                   req_body = prompt_payload @ [(''model'', JStr ''deepseek-chat'')]\<rparr>,
                 \<lparr>req_method = ''POST'', req_url = ''https://api.deepseek.com/beta/completions'',
                   req_accept = ''application/json'',
                   req_body = prompt_payload @ [(''model'', JStr ''deepseek-chat'')]\<rparr>]\<rparr>)
   \<and> create_completion (example_env unreachable) example_config 0 (caller_world prompt_payload)
     = (Inl (TransportError ''[Errno 111] Connection refused''),
        \<lparr>heap = [prompt_payload, prompt_payload @ [(''model'', JStr ''deepseek-chat'')]],
         sent = [\<lparr>req_method = ''POST'', req_url = ''https://api.deepseek.com/completions'',
                   req_accept = ''application/json'',
                   req_body = prompt_payload @ [(''model'', JStr ''deepseek-chat'')]\<rparr>]\<rparr>)"
proof -
  let ?msg = "''Please use the BETA base url''"
  let ?e = "\<lparr>err_message = ?msg, err_status = Some 400, err_payload = JNull\<rparr>"
  let ?body = "prompt_payload @ [(''model'', JStr ''deepseek-chat'')]"
  let ?rq1 = "\<lparr>req_method = ''POST'', req_url = ''https://api.deepseek.com/completions'',
                   req_accept = ''application/json'', req_body = ?body\<rparr>"
  let ?rq2 = "\<lparr>req_method = ''POST'', req_url = ''https://api.deepseek.com/beta/completions'',
                   req_accept = ''application/json'', req_body = ?body\<rparr>"
  let ?w2 = "\<lparr>heap = [prompt_payload, ?body], sent = []\<rparr>"
  let ?w3 = "\<lparr>heap = [prompt_payload, ?body], sent = [?rq1]\<rparr>"
  let ?w4 = "\<lparr>heap = [prompt_payload, ?body], sent = [?rq1, ?rq2]\<rparr>"
  have b: "contains (lower (err_message ?e)) ''beta''"
    by (simp add: lower_beta_message startswith_def)
  have beta: "build_beta_base_url (base_url example_config) = ''https://api.deepseek.com/beta''"
    by (simp add: build_beta_base_url_def normalize_base_url_def endswith_def example_config_def)
  have p: "completion_payload (example_env srv) example_config 0 (caller_world prompt_payload)
             = (1, ?w2)" for srv
    by (simp add: client_eval)
  have f1: "chat_or_completion_request (example_env (fails_once 400 ?msg)) example_config
              ''/completions'' 1 None ?w2 = (Inl (ApiError ?e), ?w3)"
    by (simp add: client_eval)
  have r1: "chat_or_completion_request (example_env (fails_once 400 ?msg)) example_config
              ''/completions'' 1 (Some (build_beta_base_url (base_url example_config))) ?w3
            = (Inr (JDict [(''id'', JStr ''r1'')], JNull), ?w4)"
    unfolding beta by (simp add: client_eval)
  have f2: "chat_or_completion_request (example_env (always_fails 400 ?msg)) example_config
              ''/completions'' 1 None ?w2 = (Inl (ApiError ?e), ?w3)"
    by (simp add: client_eval)
  have r2: "chat_or_completion_request (example_env (always_fails 400 ?msg)) example_config
              ''/completions'' 1 (Some (build_beta_base_url (base_url example_config))) ?w3
            = (Inl (ApiError ?e), ?w4)"
    unfolding beta by (simp add: client_eval)
  have f3: "chat_or_completion_request (example_env unreachable) example_config
              ''/completions'' 1 None ?w2
            = (Inl (TransportError ''[Errno 111] Connection refused''), ?w3)"
    by (simp add: client_eval)
  obtain second w4 where r3: "chat_or_completion_request (example_env unreachable) example_config
              ''/completions'' 1 (Some (build_beta_base_url (base_url example_config))) ?w3
            = (second, w4)"
    by (cases "chat_or_completion_request (example_env unreachable) example_config
              ''/completions'' 1 (Some (build_beta_base_url (base_url example_config))) ?w3")
  from beta_retry_once [OF p f1 r1] b
  have c1: "create_completion (example_env (fails_once 400 ?msg)) example_config 0
              (caller_world prompt_payload)
            = (Inr (JDict [(''response'', JDict [(''id'', JStr ''r1'')]),
                           (''used_beta_base'', JBool True),
                           (''stream_chunk_count'', JNull)]), ?w4)"
    by simp
  from beta_retry_once [OF p f2 r2] b
  have c2: "create_completion (example_env (always_fails 400 ?msg)) example_config 0
              (caller_world prompt_payload) = (Inl (ApiError ?e), ?w4)"
    by simp
  from beta_retry_once [OF p f3 r3]
  have c3: "create_completion (example_env unreachable) example_config 0
              (caller_world prompt_payload)
            = (Inl (TransportError ''[Errno 111] Connection refused''), ?w3)"
    by simp
  from c1 c2 c3 b show ?thesis by simp
qed

text \<open>
  The claim as stated, for every error whose message contains \<^verbatim>\<open>beta\<close>, fails on an
  exception that is not a \<^verbatim>\<open>DeepSeekApiError\<close>. With the base URL \<^verbatim>\<open>http://[beta]\<close> the
  transport raises \<^verbatim>\<open>Invalid IPv6 address: '[beta]'\<close> at the first attempt; the message
  contains \<^verbatim>\<open>beta\<close>, and the call ends with that exception after the one request: the
  \<^verbatim>\<open>except\<close> clause does not catch it and no retry is sent.
\<close>

theorem beta_message_not_api_error_counterexample:
  "create_completion (example_env invalid_url) beta_host_config 0 (caller_world prompt_payload)
     = (Inl (TransportError invalid_url_message),
        \<lparr>heap = [prompt_payload, prompt_payload @ [(''model'', JStr ''deepseek-chat'')]],
         sent = [\<lparr>req_method = ''POST'', req_url = ''http://[beta]/completions'',
                   req_accept = ''application/json'',
                   req_body = prompt_payload @ [(''model'', JStr ''deepseek-chat'')]\<rparr>]\<rparr>)
   \<and> contains (lower (exn_message (TransportError invalid_url_message))) ''beta''"
proof -
  have "create_completion (example_env invalid_url) beta_host_config 0 (caller_world prompt_payload)
     = (Inl (TransportError invalid_url_message),
        \<lparr>heap = [prompt_payload, prompt_payload @ [(''model'', JStr ''deepseek-chat'')]],
         sent = [\<lparr>req_method = ''POST'', req_url = ''http://[beta]/completions'',
                   req_accept = ''application/json'',
                   req_body = prompt_payload @ [(''model'', JStr ''deepseek-chat'')]\<rparr>]\<rparr>)"
    by (simp add: client_defs example_env_def example_config_def caller_world_def
          prompt_payload_def invalid_url_def beta_host_config_def example_repr_def
          dict_get_def py_or_def Let_def normalize_base_url_def)
  with invalid_url_message_beta show ?thesis by simp
qed

text \<open>
  Claim C10. Neither \<open>create_chat_completion\<close> nor \<open>create_completion\<close> writes into the
  caller's payload: whatever the outcome of the call (a response, a retry, an exception),
  the object the caller passed holds the entries it held on entry, and so does every other
  object that existed on entry. The methods write into the copies they allocate.
\<close>

theorem payload_not_mutated:
  assumes "payload < length (heap w)"
  shows "heap (snd (create_chat_completion ev cfg payload w)) ! payload = heap w ! payload
       \<and> take (length (heap w)) (heap (snd (create_chat_completion ev cfg payload w))) = heap w
       \<and> heap (snd (create_completion ev cfg payload w)) ! payload = heap w ! payload
       \<and> take (length (heap w)) (heap (snd (create_completion ev cfg payload w))) = heap w"
proof -
  obtain model q w2 where p: "chat_payload ev cfg payload w = (model, q, w2)"
    by (cases "chat_payload ev cfg payload w")
  obtain first w3 where
    f: "chat_or_completion_request ev cfg ''/chat/completions'' q None w2 = (first, w3)"
    by (cases "chat_or_completion_request ev cfg ''/chat/completions'' q None w2")
  from create_chat_completion_world [OF p f]
  obtain new where chat: "heap (snd (create_chat_completion ev cfg payload w)) = heap w @ new"
    by blast
  obtain q' w2' where p': "completion_payload ev cfg payload w = (q', w2')"
    by (cases "completion_payload ev cfg payload w")
  obtain first' w3' where
    f': "chat_or_completion_request ev cfg ''/completions'' q' None w2' = (first', w3')"
    by (cases "chat_or_completion_request ev cfg ''/completions'' q' None w2'")
  from create_completion_world [OF p' f']
  obtain new' where compl: "heap (snd (create_completion ev cfg payload w)) = heap w @ new'"
    by blast
  from assms show ?thesis
    unfolding chat compl by (simp add: nth_append)
qed

theorem payload_not_mutated_witness:
  "(0::nat) < length (heap (caller_world (chat_payload_for ''deepseek-reasoner'')))
   \<and> heap (snd (create_chat_completion (example_env (fails_once 429 ''rate limited''))
                  example_config 0 (caller_world (chat_payload_for ''deepseek-reasoner'')))) ! 0
       = chat_payload_for ''deepseek-reasoner''
   \<and> heap (snd (create_completion (example_env (always_fails 400 ''Please use the BETA base url''))
                  example_config 0 (caller_world (chat_payload_for ''deepseek-reasoner'')))) ! 0
       = chat_payload_for ''deepseek-reasoner''"
proof -
  have h: "(0::nat) < length (heap (caller_world (chat_payload_for ''deepseek-reasoner'')))"
    by (simp add: caller_world_def)
  have "heap (caller_world (chat_payload_for ''deepseek-reasoner'')) ! 0
          = chat_payload_for ''deepseek-reasoner''"
    by (simp add: caller_world_def)
  with payload_not_mutated [OF h, of "example_env (fails_once 429 ''rate limited'')" example_config]
    payload_not_mutated [OF h, of "example_env (always_fails 400 ''Please use the BETA base url'')"
      example_config] h
  show ?thesis by simp
qed

text \<open>
  Claim C6. Called with \<^verbatim>\<open>messages\<close> and nothing else (every optional parameter at its
  default), \<open>chat_completion\<close> sends to the chat-completions endpoint a payload with exactly
  the entries \<^verbatim>\<open>messages\<close>, \<^verbatim>\<open>stream\<close> (false) and \<^verbatim>\<open>model\<close> (the configured default
  model). Nothing else is sent, except the fallback retry when there is one, which carries
  the same three keys with the fallback model.
\<close>

theorem chat_completion_only_messages:
  "\<exists>rest.
     sent (snd (chat_completion ev cfg messages JNull False JNull JNull JNull JNull JNull JNull
                  JNull JNull JNull None w)) =
       sent w @
       \<lparr>req_method = ''POST'',
        req_url = normalize_base_url (base_url cfg) @ ''/chat/completions'',
        req_accept = ''application/json'',
        req_body = [(''messages'', JList messages),
                    (''stream'', JBool False),
                    (''model'', JStr (default_model cfg))]\<rparr> # rest
     \<and> (rest = []
        \<or> rest = [\<lparr>req_method = ''POST'',
                    req_url = normalize_base_url (base_url cfg) @ ''/chat/completions'',
                    req_accept = ''application/json'',
                    req_body = [(''messages'', JList messages),
                                (''stream'', JBool False),
                                (''model'', JStr (fallback_model cfg))]\<rparr>])"
proof -
  define w' where "w' = w\<lparr>heap := heap w @ [[(''messages'', JList messages),
                                              (''stream'', JBool False)]]\<rparr>"
  have b: "build_chat_payload messages JNull False JNull JNull JNull JNull JNull JNull
             JNull JNull JNull None w = (length (heap w), w')"
    by (simp add: build_chat_payload_def dict_new_def set_if_not_none_def w'_def)
  obtain model q w2 where p: "chat_payload ev cfg (length (heap w)) w' = (model, q, w2)"
    by (cases "chat_payload ev cfg (length (heap w)) w'")
  obtain first w3 where
    f: "chat_or_completion_request ev cfg ''/chat/completions'' q None w2 = (first, w3)"
    by (cases "chat_or_completion_request ev cfg ''/chat/completions'' q None w2")
  have d: "heap w' ! length (heap w) = [(''messages'', JList messages), (''stream'', JBool False)]"
    by (simp add: w'_def)
  have m: "model = default_model cfg"
    using chat_payload_result(1) [OF p] d by (simp add: dict_get_def py_or_def)
  have s: "sent w' = sent w"
    by (simp add: w'_def)
  from create_chat_completion_world [OF p f]
  have "sent (snd (create_chat_completion ev cfg (length (heap w)) w')) =
          sent w @
          \<lparr>req_method = ''POST'',
           req_url = normalize_base_url (base_url cfg) @ ''/chat/completions'',
           req_accept = ''application/json'',
           req_body = [(''messages'', JList messages),
                       (''stream'', JBool False),
                       (''model'', JStr (default_model cfg))]\<rparr>
          # (if (\<exists>e. first = Inl (ApiError e) \<and> should_reasoner_fallback cfg model e)
             then [\<lparr>req_method = ''POST'',
                     req_url = normalize_base_url (base_url cfg) @ ''/chat/completions'',
                     req_accept = ''application/json'',
                     req_body = [(''messages'', JList messages),
                                 (''stream'', JBool False),
                                 (''model'', JStr (fallback_model cfg))]\<rparr>]
             else [])"
    unfolding d m s by (simp add: dict_get_def)
  then show ?thesis
    by (simp add: chat_completion_def b)
qed

theorem chat_completion_only_messages_witness:
  "\<exists>rest.
     sent (snd (chat_completion (example_env (fails_once 429 ''rate limited'')) example_config
                  [JDict [(''role'', JStr ''user''), (''content'', JStr ''hi'')]]
                  JNull False JNull JNull JNull JNull JNull JNull JNull JNull JNull None
                  (caller_world []))) =
       \<lparr>req_method = ''POST'',
        req_url = ''https://api.deepseek.com/chat/completions'',
        req_accept = ''application/json'',
        req_body = [(''messages'', JList [JDict [(''role'', JStr ''user''),
                                                 (''content'', JStr ''hi'')]]),
                    (''stream'', JBool False),
                    (''model'', JStr ''deepseek-chat'')]\<rparr> # rest"
proof -
  have n: "normalize_base_url (base_url example_config) = ''https://api.deepseek.com''"
    by (simp add: normalize_base_url_def example_config_def)
  have d: "default_model example_config = ''deepseek-chat''"
    by (simp add: example_config_def)
  have s: "sent (caller_world []) = []"
    by (simp add: caller_world_def)
  from chat_completion_only_messages
         [of "example_env (fails_once 429 ''rate limited'')" example_config
             "[JDict [(''role'', JStr ''user''), (''content'', JStr ''hi'')]]" "caller_world []"]
  show ?thesis
    unfolding n d s by auto
qed

section \<open>Error classification\<close>

text \<open>
  The status and the decoded body are kept on the error, by both constructors.
\<close>

lemma make_api_error_retains:
  "err_status (make_api_error response) = Some (status_code response)"
  "err_payload (make_api_error response) =
     (case resp_json response of Inl _ \<Rightarrow> JNull | Inr j \<Rightarrow> j)"
  "err_status (make_api_error_from_text ld code txt) = Some code"
  "err_payload (make_api_error_from_text ld code txt) =
     (case ld txt of Inl _ \<Rightarrow> JNull | Inr j \<Rightarrow> j)"
  by (simp_all add: make_api_error_def make_api_error_from_text_def Let_def split: sum.splits)

text \<open>
  The message that \<open>make_api_error_from_text\<close> chooses: the extracted message, else the
  raw text, else the synthesized message; an empty string counts as absent.
\<close>

lemma make_api_error_from_text_message:
  "err_message (make_api_error_from_text ld code txt) =
     (case (case ld txt of Inl _ \<Rightarrow> None | Inr p \<Rightarrow> extract_error_message p) of
        Some (c # cs) \<Rightarrow> c # cs
      | _ \<Rightarrow> if txt \<noteq> [] then txt else status_message code)"
  by (simp add: make_api_error_from_text_def or_status_message_def Let_def
        split: sum.splits option.splits list.splits)

text \<open>
  Where \<^verbatim>\<open>response.json()\<close> and \<^verbatim>\<open>json.loads\<close> of the text decode the body alike, the
  two constructors agree except on a body that decodes to a value other than \<^verbatim>\<open>None\<close>
  and has no message to extract: there \<open>make_api_error\<close> skips the raw text.
\<close>

lemma make_api_error_agrees:
  assumes same: "resp_json response = ld (resp_text response)"
    and msg: "\<And>p. ld (resp_text response) = Inr p \<Longrightarrow>
             p = JNull \<or> (\<exists>c cs. extract_error_message p = Some (c # cs)) \<or> resp_text response = []"
  shows "make_api_error response =
           make_api_error_from_text ld (status_code response) (resp_text response)"
proof (cases "ld (resp_text response)")
  case (Inl m)
  with same show ?thesis
    by (simp add: make_api_error_def make_api_error_from_text_def)
next
  case (Inr p)
  have "extract_error_message JNull = None"
    by (simp add: extract_error_message_def)
  with msg [OF Inr] Inr same show ?thesis
    by (auto simp: make_api_error_def make_api_error_from_text_def or_status_message_def Let_def
          extract_error_message_def split: option.splits)
qed

text \<open>
  Claim C4 fails on the non-streaming path. The response \<open>detail_response\<close> has status 404
  and the JSON body \<^verbatim>\<open>{"detail": "Not found"}\<close>, with no \<^verbatim>\<open>error.message\<close> and no
  \<^verbatim>\<open>message\<close>. The claim's third choice is the raw response text; \<open>make_api_error\<close>
  goes on to the synthesized message instead, while \<open>make_api_error_from_text\<close>, on the
  same status and text, takes the raw text.
\<close>

theorem make_api_error_skips_raw_text:
  "make_api_error detail_response =
     \<lparr>err_message = ''DeepSeek API error (status 404)'',
      err_status = Some 404,
      err_payload = JDict [(''detail'', JStr ''Not found'')]\<rparr>
   \<and> make_api_error_from_text example_loads (status_code detail_response)
         (resp_text detail_response) =
     \<lparr>err_message = detail_body,
      err_status = Some 404,
      err_payload = JDict [(''detail'', JStr ''Not found'')]\<rparr>"
  by (simp add: make_api_error_def make_api_error_from_text_def or_status_message_def
        status_message_def extract_error_message_def top_level_message_def dict_get_def
        detail_response_def example_loads_def detail_body_def str_int_def nat_digits.simps)

text \<open>
  Every \<^verbatim>\<open>DeepSeekApiError\<close> that a request raises carries a status: the constructors
  are always given the response's status code. An error without a status can only be a
  failure of the transport, and that is not a \<^verbatim>\<open>DeepSeekApiError\<close>.
\<close>

lemma api_errors_have_status:
  assumes "chat_or_completion_request ev cfg path p ov w = (Inl (ApiError e), w')"
  shows "\<exists>s. err_status e = Some s"
proof (cases "truthy (dict_get (heap w ! p) ''stream'')")
  case True
  with assms show ?thesis
    by (auto simp: chat_or_completion_request_def request_sse_json_def send_def Let_def
          make_api_error_retains split: reply.splits if_splits sum.splits)
next
  case False
  with assms show ?thesis
    by (auto simp: chat_or_completion_request_def request_json_def send_def Let_def
          make_api_error_retains split: reply.splits if_splits sum.splits)
qed

text \<open>
  Claim C2 fails on a failure of the transport. The requested model is
  \<^verbatim>\<open>deepseek-reasoner\<close>, the fallback is enabled and the fallback model is
  \<^verbatim>\<open>deepseek-chat\<close>; the server cannot be reached, so the error of the first attempt
  carries no status code. The claim has the retry attempted; \<open>create_chat_completion\<close>
  lets the exception through after the one request, because the exception of the
  transport is not a \<^verbatim>\<open>DeepSeekApiError\<close> and the \<^verbatim>\<open>except\<close> clause does not catch it.
\<close>

theorem transport_failure_not_retried:
  "create_chat_completion (example_env unreachable) example_config 0
     (caller_world (chat_payload_for ''deepseek-reasoner''))
   = (Inl (TransportError ''[Errno 111] Connection refused''),
      \<lparr>heap = [chat_payload_for ''deepseek-reasoner'', chat_payload_for ''deepseek-reasoner''],
       sent = [\<lparr>req_method = ''POST'',
                 req_url = ''https://api.deepseek.com/chat/completions'',
                 req_accept = ''application/json'',
                 req_body = chat_payload_for ''deepseek-reasoner''\<rparr>]\<rparr>)
   \<and> enable_reasoner_fallback example_config
   \<and> fallback_model example_config = ''deepseek-chat''"
  by (simp add: client_eval)

end
